theory Spec2Isabelle
  imports Main
begin

section \<open>Bytes and text\<close>

text \<open>
  Go strings and byte slices are sequences of 8-bit bytes; both are modelled as
  \<^typ>\<open>string\<close> (a list of \<^typ>\<open>char\<close>, which is one byte).  A slice expression
  \<^verbatim>\<open>line[i:]\<close> is \<^term>\<open>drop i line\<close>, \<^verbatim>\<open>line[:i]\<close> is \<^term>\<open>take i line\<close>.
  A local slice is a value here: every local slice of the source is read before the
  next call of \<^verbatim>\<open>ReadSlice\<close>, while the buffer of the \<^verbatim>\<open>bufio.Reader\<close> it was cut
  from still holds its bytes.  The field \<open>pending\<close> outlives such calls; what it shows
  after one is modelled under \<open>Lines\<close> below.
\<close>

abbreviation (input) HT :: char where "HT \<equiv> CHR 0x09"
abbreviation (input) LF :: char where "LF \<equiv> CHR 0x0A"
abbreviation (input) CR :: char where "CR \<equiv> CHR 0x0D"
abbreviation (input) SP :: char where "SP \<equiv> CHR 0x20"
abbreviation (input) DQ :: char where "DQ \<equiv> CHR 0x22"
abbreviation (input) SQ :: char where "SQ \<equiv> CHR 0x27"
abbreviation (input) BSL :: char where "BSL \<equiv> CHR 0x5C"

definition byte :: "char \<Rightarrow> nat" where
  "byte c = of_char c"

text \<open>The white space of the token scanners: \<^verbatim>\<open>case ' ', '\t', '\r', '\n'\<close>.\<close>

definition isWS :: "char \<Rightarrow> bool" where
  "isWS c = (c = SP \<or> c = HT \<or> c = CR \<or> c = LF)"

definition isDigit :: "char \<Rightarrow> bool" where
  "isDigit c = (byte (CHR ''0'') \<le> byte c \<and> byte c \<le> byte (CHR ''9''))"

definition isUpper :: "char \<Rightarrow> bool" where
  "isUpper c = (byte (CHR ''A'') \<le> byte c \<and> byte c \<le> byte (CHR ''Z''))"

definition isLower :: "char \<Rightarrow> bool" where
  "isLower c = (byte (CHR ''a'') \<le> byte c \<and> byte c \<le> byte (CHR ''z''))"

text \<open>\<^verbatim>\<open>strings.HasPrefix(s, prefix)\<close>: whether \<open>s\<close> begins with \<open>prefix\<close>.\<close>

definition HasPrefix :: "string \<Rightarrow> string \<Rightarrow> bool" where
  "HasPrefix s pre = (length pre \<le> length s \<and> take (length pre) s = pre)"

text \<open>Decimal rendering of an integer, the \<^verbatim>\<open>%d\<close> verb of \<^verbatim>\<open>fmt\<close>.\<close>

fun digits_fuel :: "nat \<Rightarrow> nat \<Rightarrow> string" where
  "digits_fuel 0 n = []"
| "digits_fuel (Suc k) n =
     (if n < 10 then [char_of (48 + n)]
      else digits_fuel k (n div 10) @ [char_of (48 + n mod 10)])"

definition itoa :: "int \<Rightarrow> string" where
  "itoa i = (if i < 0 then CHR ''-'' # digits_fuel (Suc (nat (- i))) (nat (- i))
             else digits_fuel (Suc (nat i)) (nat i))"

section \<open>The triple and its accessors (tripn.go)\<close>

record Triple =
  SubjectIRI :: string
  PredicateIRI :: string
  Object :: string
  DatatypeIRI :: string
  LangTag :: string

definition XSDString :: string where
  "XSDString = ''http://www.w3.org/2001/XMLSchema#string''"

definition XSDBoolean :: string where
  "XSDBoolean = ''http://www.w3.org/2001/XMLSchema#boolean''"

definition XSDDecimal :: string where
  "XSDDecimal = ''http://www.w3.org/2001/XMLSchema#decimal''"

definition XSDInteger :: string where
  "XSDInteger = ''http://www.w3.org/2001/XMLSchema#integer''"

definition XSDDouble :: string where
  "XSDDouble = ''http://www.w3.org/2001/XMLSchema#double''"

definition rdfLangString :: string where
  "rdfLangString = ''http://www.w3.org/1999/02/22-rdf-syntax-ns#langString''"

definition rdfType :: string where
  "rdfType = ''http://www.w3.org/1999/02/22-rdf-syntax-ns#type''"

text \<open>The error values of the accessors (package variables of tripn.go).\<close>

datatype xsd_error = errXSDString | errXSDBoolean | errXSDBooleanSyntax

text \<open>
  \<^verbatim>\<open>func (t Triple) XSDString() (string, error)\<close>: both return statements give the
  empty string.
\<close>

definition Triple_XSDString :: "Triple \<Rightarrow> string \<times> xsd_error option" where
  "Triple_XSDString t =
     (if DatatypeIRI t \<noteq> XSDString then ([], Some errXSDString)
      else ([], None))"

text \<open>\<^verbatim>\<open>func (t Triple) XSDBoolean() (bool, error)\<close>.\<close>

definition Triple_XSDBoolean :: "Triple \<Rightarrow> bool \<times> xsd_error option" where
  "Triple_XSDBoolean t =
     (if DatatypeIRI t \<noteq> XSDBoolean then (False, Some errXSDBoolean)
      else if Object t = ''false'' \<or> Object t = ''0'' then (False, None)
      else if Object t = ''true'' \<or> Object t = ''1'' then (True, None)
      else (False, Some errXSDBooleanSyntax))"

subsection \<open>The line rendering\<close>

text \<open>
  \<^verbatim>\<open>Triple.String\<close> formats with \<^verbatim>\<open>fmt.Sprintf\<close>; the verb \<^verbatim>\<open>%q\<close> is
  \<^verbatim>\<open>strconv.Quote\<close>.  On a byte below 0x80 the quoting is fixed: a backslash before
  the double quote and the backslash, the printable bytes as they are, the short
  escapes of Go for seven control bytes, and \<^verbatim>\<open>\x\<close> with two hexadecimal digits for
  the other control bytes.  How a run of bytes from 0x80 on is rendered depends on the
  Unicode tables of the Go library; it is the parameter \<open>qx\<close>.
\<close>

definition hexDigit :: "nat \<Rightarrow> char" where
  "hexDigit n = (if n < 10 then char_of (48 + n) else char_of (87 + n))"

definition quoteASCII :: "char \<Rightarrow> string" where
  "quoteASCII c =
     (if c = DQ \<or> c = BSL then [BSL, c]
      else if 0x20 \<le> byte c \<and> byte c < 0x7F then [c]
      else if byte c = 0x07 then [BSL, CHR ''a'']
      else if byte c = 0x08 then [BSL, CHR ''b'']
      else if byte c = 0x0C then [BSL, CHR ''f'']
      else if c = LF then [BSL, CHR ''n'']
      else if c = CR then [BSL, CHR ''r'']
      else if c = HT then [BSL, CHR ''t'']
      else if byte c = 0x0B then [BSL, CHR ''v'']
      else [BSL, CHR ''x'', hexDigit (byte c div 16), hexDigit (byte c mod 16)])"

fun quoteRuns :: "(string \<Rightarrow> string) \<Rightarrow> string \<Rightarrow> string \<Rightarrow> string" where
  "quoteRuns qx run [] = (if run = [] then [] else qx run)"
| "quoteRuns qx run (c # cs) =
     (if 0x80 \<le> byte c then quoteRuns qx (run @ [c]) cs
      else (if run = [] then [] else qx run) @ quoteASCII c @ quoteRuns qx [] cs)"

definition Quote :: "(string \<Rightarrow> string) \<Rightarrow> string \<Rightarrow> string" where
  "Quote qx s = [DQ] @ quoteRuns qx [] s @ [DQ]"

definition Triple_String :: "(string \<Rightarrow> string) \<Rightarrow> Triple \<Rightarrow> string" where
  "Triple_String qx t =
     (if DatatypeIRI t = [] then
        ''<'' @ SubjectIRI t @ ''> <'' @ PredicateIRI t @ ''> <'' @ Object t @ ''> .''
      else if LangTag t = [] then
        ''<'' @ SubjectIRI t @ ''> <'' @ PredicateIRI t @ ''> '' @ Quote qx (Object t)
          @ ''^^<'' @ DatatypeIRI t @ ''> .''
      else
        ''<'' @ SubjectIRI t @ ''> <'' @ PredicateIRI t @ ''> '' @ Quote qx (Object t)
          @ ''@'' @ LangTag t @ '' .'')"

section \<open>Skolem IRIs (reader.go)\<close>

definition skolemIRIRoot :: string where
  "skolemIRIRoot = ''web+skolem://quies.net/''"

text \<open>
  \<^verbatim>\<open>func IsSkolemIRI(s string) bool { return strings.HasPrefix(skolemIRIRoot, s) }\<close>:
  the root is the first argument of \<^verbatim>\<open>HasPrefix\<close> and \<open>s\<close> the second.
\<close>

definition IsSkolemIRI :: "string \<Rightarrow> bool" where
  "IsSkolemIRI s = HasPrefix skolemIRIRoot s"

section \<open>Errors and results\<close>

text \<open>
  The error values a \<^verbatim>\<open>Reader\<close> returns.  \<open>ErrUnexpectedEOF\<close> carries the text that
  \<^verbatim>\<open>fmt.Errorf("%w: ...", io.ErrUnexpectedEOF)\<close> wraps around it (empty for the bare
  value); \<open>SyntaxError\<close> is \<^verbatim>\<open>*SyntaxError{LineNo, Reason}\<close>; \<open>URLError\<close> is the
  error of \<^verbatim>\<open>url.Parse\<close>; \<open>StreamError\<close> is any other error of the underlying
  reader.
\<close>

datatype error =
    EOF
  | ErrUnexpectedEOF string
  | ErrBufferFull
  | SyntaxError int string
  | URLError string
  | StreamError string

text \<open>
  A method returns its values with a nil error (\<open>Ok\<close>), returns an error (\<open>Err\<close>;
  every caller drops the other values then), or panics (\<open>Panic\<close>).  A method with a
  loop that may run forever returns an \<^typ>\<open>'a option\<close> around that, \<open>None\<close> for
  no return at all.
\<close>

datatype 'a res = Ok 'a | Err error | Panic string

section \<open>The libraries the Reader uses\<close>

text \<open>
  \<^verbatim>\<open>utf8.Valid\<close>: the bytes are a sequence of well-formed UTF-8 encodings (shortest
  form, no surrogate halves, nothing above U+10FFFF).
\<close>

definition between :: "nat \<Rightarrow> nat \<Rightarrow> char \<Rightarrow> bool" where
  "between lo hi c = (lo \<le> byte c \<and> byte c \<le> hi)"

fun utf8_Valid :: "string \<Rightarrow> bool" where
  "utf8_Valid [] = True"
| "utf8_Valid (c # cs) =
     (if byte c < 0x80 then utf8_Valid cs
      else if between 0xC2 0xDF c then
        (case cs of c1 # rest \<Rightarrow> between 0x80 0xBF c1 \<and> utf8_Valid rest | _ \<Rightarrow> False)
      else if between 0xE0 0xEF c then
        (case cs of
           c1 # c2 # rest \<Rightarrow>
             between (if byte c = 0xE0 then 0xA0 else 0x80)
                     (if byte c = 0xED then 0x9F else 0xBF) c1
             \<and> between 0x80 0xBF c2 \<and> utf8_Valid rest
         | _ \<Rightarrow> False)
      else if between 0xF0 0xF4 c then
        (case cs of
           c1 # c2 # c3 # rest \<Rightarrow>
             between (if byte c = 0xF0 then 0x90 else 0x80)
                     (if byte c = 0xF4 then 0x8F else 0xBF) c1
             \<and> between 0x80 0xBF c2 \<and> between 0x80 0xBF c3 \<and> utf8_Valid rest
         | _ \<Rightarrow> False)
      else False)"

subsection \<open>The buffered reader\<close>

text \<open>
  The \<^verbatim>\<open>bufio.Reader\<close> in field \<open>R\<close> is the list of the results its coming calls
  of \<^verbatim>\<open>ReadSlice('\n')\<close> give, each a slice and an error or nil; once the list is
  used up, \<^verbatim>\<open>ReadSlice\<close> gives no bytes and \<^verbatim>\<open>io.EOF\<close>.  The list is finite: a
  stream that never ends is outside the model.
\<close>

type_synonym bufio = "(string \<times> error option) list"

definition ReadSlice :: "bufio \<Rightarrow> (string \<times> error option) \<times> bufio" where
  "ReadSlice b = (case b of [] \<Rightarrow> (([], Some EOF), []) | x # b' \<Rightarrow> (x, b'))"

text \<open>
  \<^verbatim>\<open>bufio.NewReaderSize(strings.NewReader(s), size)\<close>: a line up to its new-line
  byte when it fits the buffer, a full buffer with \<^verbatim>\<open>bufio.ErrBufferFull\<close> when it
  does not, and what is left at the end with \<^verbatim>\<open>io.EOF\<close>.  The buffer has 16 bytes
  at least; \<^verbatim>\<open>bufio.NewReader\<close> takes 4096.
\<close>

fun slices :: "nat \<Rightarrow> string \<Rightarrow> string \<Rightarrow> bufio" where
  "slices n acc [] = (if acc = [] then [] else [(acc, Some EOF)])"
| "slices n acc (c # cs) =
     (if c = LF then (acc @ [c], None) # slices n [] cs
      else if n \<le> Suc (length acc) then (acc @ [c], Some ErrBufferFull) # slices n [] cs
      else slices n (acc @ [c]) cs)"

definition NewReaderSize :: "string \<Rightarrow> nat \<Rightarrow> bufio" where
  "NewReaderSize s n = slices (max n 16) [] s"

definition NewReader :: "string \<Rightarrow> bufio" where
  "NewReader s = NewReaderSize s 4096"

section \<open>The Reader (reader.go)\<close>

text \<open>
  The counters are Go \<^verbatim>\<open>int\<close>s of 64 bits, each raised by one per line or node read;
  they are modelled as \<^typ>\<open>int\<close>.  A nil map reads as the empty map.

  \<^verbatim>\<open>pending []byte\<close> is a slice of the buffer of \<open>R\<close>.  The field \<open>pending\<close> holds
  the bytes it was assigned.  \<open>pendingStale\<close> is no field of the source: it records
  that \<^verbatim>\<open>ReadSlice\<close> was called after the last assignment to \<^verbatim>\<open>r.pending\<close>, so that
  the buffer under the slice may hold other bytes by now.
\<close>

record 'u Reader =
  R :: bufio
  pending :: string
  pendingStale :: bool
  BaseIRI :: "'u option"
  prefixPerLabel :: "string \<rightharpoonup> string"
  lineNo :: int
  anonNodeNo :: int
  collectionLevel :: int
  propListLevel :: int
  skolemIRICache :: string

subsection \<open>Parameters\<close>

text \<open>
  \<^verbatim>\<open>net/url\<close>, the clock and the random source are parameters of the model:
  \<open>url_Parse\<close> is \<^verbatim>\<open>url.Parse\<close> (\<open>Inl\<close> its error), \<open>url_Scheme\<close> the field
  \<^verbatim>\<open>URL.Scheme\<close>, \<open>url_ResolveReference b l\<close> is \<^verbatim>\<open>b.ResolveReference(l)\<close>,
  \<open>url_String\<close> is \<^verbatim>\<open>URL.String\<close>, and \<open>session\<close> is the text of
  \<^verbatim>\<open>fmt.Sprintf("%x%x", time.Now().UnixNano(), rand.Uint32())\<close> at the one moment a
  Reader evaluates it.  \<open>aliased\<close> gives the bytes that stand in the buffer of the
  \<^verbatim>\<open>bufio.Reader\<close> where the slice \<^verbatim>\<open>r.pending\<close> points, once a call of
  \<^verbatim>\<open>ReadSlice\<close> has filled the buffer anew; no theorem fixes it.
\<close>

record 'u env =
  url_Parse :: "string \<Rightarrow> string + 'u"
  url_Scheme :: "'u \<Rightarrow> string"
  url_ResolveReference :: "'u \<Rightarrow> 'u \<Rightarrow> 'u"
  url_String :: "'u \<Rightarrow> string"
  session :: string
  aliased :: "'u Reader \<Rightarrow> string"

definition syntaxErr :: "'u Reader \<Rightarrow> string \<Rightarrow> error" where
  "syntaxErr r reason = SyntaxError (lineNo r) reason"

text \<open>\<^verbatim>\<open>func (r *Reader) skolemIRIRoot() string\<close>; the cache is filled by the first call.\<close>

definition Reader_skolemIRIRoot :: "'u env \<Rightarrow> 'u Reader \<Rightarrow> string \<times> 'u Reader" where
  "Reader_skolemIRIRoot E r =
     (let r' = (if skolemIRICache r = []
                then r\<lparr>skolemIRICache := skolemIRIRoot @ session E @ ''/''\<rparr> else r)
      in (skolemIRICache r', r'))"

subsection \<open>Lines\<close>

text \<open>\<^verbatim>\<open>func lead(line []byte) []byte\<close>.\<close>

fun lead :: "string \<Rightarrow> string" where
  "lead [] = []"
| "lead (c # cs) =
     (if c = SP \<or> c = HT \<or> c = CR then lead cs
      else if c = CHR ''#'' \<or> c = LF then []
      else c # cs)"

text \<open>
  \<^verbatim>\<open>func (r *Reader) line() ([]byte, error)\<close>, its loop first: \<open>line_loop r line\<close> is
  the loop entered with the local variable \<open>line\<close>.  The first case of its switch
  (\<^verbatim>\<open>err == nil\<close>, or \<^verbatim>\<open>io.EOF\<close> with bytes) stands twice, for the nil and for the
  non-nil error.
\<close>

function line_loop :: "'u Reader \<Rightarrow> string \<Rightarrow> string res \<times> 'u Reader" where
  "line_loop r line =
     (if lead line \<noteq> [] then (Ok (lead line), r)
      else
        (case ReadSlice (R r) of
           ((line', err), b) \<Rightarrow>
             (case err of
                None \<Rightarrow>
                  if \<not> utf8_Valid line' then
                    (Err (syntaxErr (r\<lparr>lineNo := lineNo r + 1\<rparr>) ''invalid UTF-8''),
                     r\<lparr>R := b, lineNo := lineNo r + 1, pending := line', pendingStale := False\<rparr>)
                  else line_loop (r\<lparr>R := b, pendingStale := True, lineNo := lineNo r + 1\<rparr>) line'
              | Some e \<Rightarrow>
                  if e = EOF \<and> line' \<noteq> [] then
                    (if \<not> utf8_Valid line' then
                       (Err (syntaxErr (r\<lparr>lineNo := lineNo r + 1\<rparr>) ''invalid UTF-8''),
                        r\<lparr>R := b, lineNo := lineNo r + 1, pending := line',
                          pendingStale := False\<rparr>)
                     else
                       line_loop (r\<lparr>R := b, pendingStale := True, lineNo := lineNo r + 1\<rparr>) line')
                  else if e = ErrBufferFull then
                    (Err (syntaxErr r ''line too long''),
                     r\<lparr>R := b, pending := line', pendingStale := False\<rparr>)
                  else (Err e, r\<lparr>R := b, pending := line', pendingStale := False\<rparr>))))"
  by pat_completeness auto
termination
  by (relation "measure (\<lambda>(r, line). length (R r))")
     (auto simp: ReadSlice_def split: list.splits)

text \<open>
  \<^verbatim>\<open>line := r.pending\<close> reads the bytes under the slice.  They are the bytes
  assigned as long as no call of \<^verbatim>\<open>ReadSlice\<close> came after the assignment.  After such
  a call the slice has the length it had, and its bytes are what the buffer holds
  there now: the bytes \<open>aliased E r\<close>, as far as the length goes.
\<close>

definition pendingBytes :: "'u env \<Rightarrow> 'u Reader \<Rightarrow> string" where
  "pendingBytes E r =
     (if pendingStale r then take (length (pending r)) (aliased E r @ pending r)
      else pending r)"

definition Reader_line :: "'u env \<Rightarrow> 'u Reader \<Rightarrow> string res \<times> 'u Reader" where
  "Reader_line E r = line_loop r (pendingBytes E r)"

text \<open>\<^verbatim>\<open>func (r *Reader) lineContinue(remainder []byte) (line []byte, err error)\<close>.\<close>

definition lineContinue ::
  "'u env \<Rightarrow> 'u Reader \<Rightarrow> string \<Rightarrow> string res \<times> 'u Reader" where
  "lineContinue E r remainder =
     (if lead remainder \<noteq> [] then (Ok (lead remainder), r)
      else
        (case Reader_line E r of
           (Err e, r') \<Rightarrow> (if e = EOF then (Err (ErrUnexpectedEOF []), r') else (Err e, r'))
         | (x, r') \<Rightarrow> (x, r')))"

subsection \<open>Tokens and IRI references\<close>

text \<open>\<^verbatim>\<open>line[i:j]\<close>\<close>

definition slice :: "string \<Rightarrow> nat \<Rightarrow> nat \<Rightarrow> string" where
  "slice line i j = take (j - i) (drop i line)"

text \<open>
  \<^verbatim>\<open>func (r *Reader) inToken(line []byte, token string) (remainder []byte, err error)\<close>;
  \<open>inToken_loop\<close> is its loop at index \<open>i\<close>.  Both tokens of the callers are plain
  letters, which \<^verbatim>\<open>%q\<close> puts between double quotes as they are.
\<close>

function inToken_loop :: "'u Reader \<Rightarrow> string \<Rightarrow> string \<Rightarrow> nat \<Rightarrow> string res" where
  "inToken_loop r line token i =
     (if i < length token then
        (if length line \<le> i then
           Err (ErrUnexpectedEOF (''token '' @ [DQ] @ token @ [DQ] @ '' interrupted''))
         else if line ! i \<noteq> token ! i then
           Err (syntaxErr r (''unknown token; expected '' @ [DQ] @ token @ [DQ]))
         else inToken_loop r line token (i + 1))
      else Ok (drop (length token) line))"
  by pat_completeness auto
termination
  by (relation "measure (\<lambda>(r, line, token, i). length token - i)") auto

definition inToken :: "'u Reader \<Rightarrow> string \<Rightarrow> string \<Rightarrow> string res" where
  "inToken r line token = inToken_loop r line token 1"

text \<open>
  \<^verbatim>\<open>func (r *Reader) inIRI(line []byte) (IRI string, remainder []byte, err error)\<close>;
  \<open>inIRI_loop\<close> is its loop at index \<open>i\<close>.
\<close>

function inIRI_loop :: "'u env \<Rightarrow> 'u Reader \<Rightarrow> string \<Rightarrow> nat \<Rightarrow> (string \<times> string) res" where
 \<open>inIRI_loop E r line i =
     (if i < length line then
        (let c = line ! i in
         if c = CHR ''>'' then
           (case url_Parse E (slice line 1 i) of
              Inl msg \<Rightarrow> Err (URLError msg)
            | Inr l \<Rightarrow>
                if url_Scheme E l = [] then
                  (case BaseIRI r of
                     None \<Rightarrow> Err (syntaxErr r ''relative reference without base IRI'')
                   | Some base \<Rightarrow>
                       Ok (url_String E (url_ResolveReference E base l), drop (i + 1) line))
                else Ok (slice line 1 i, drop (i + 1) line))
         else if c = CHR ''<'' \<or> c = DQ \<or> c = CHR ''{'' \<or> c = CHR ''}'' \<or> c = CHR ''|''
                 \<or> c = CHR ''^'' \<or> c = CHR 0x60 then
           Err (syntaxErr r ''illegal character in IRI reference'')
         else if c = BSL then Panic ''TODO: Unicode escape''
         else if byte c \<le> 0x20 then Err (syntaxErr r ''control character in IRI reference'')
         else inIRI_loop E r line (i + 1))
      else Err (ErrUnexpectedEOF ''URI reference interupted''))\<close>
  by pat_completeness auto
termination
  by (relation "measure (\<lambda>(E, r, line, i). length line - i)") auto

definition inIRI :: "'u env \<Rightarrow> 'u Reader \<Rightarrow> string \<Rightarrow> (string \<times> string) res" where
  "inIRI E r line = inIRI_loop E r line 1"

subsection \<open>Escapes\<close>

text \<open>
  \<^verbatim>\<open>strings.Builder.WriteRune\<close> on the rune \<^verbatim>\<open>(rune)(u)\<close>: the UTF-8 encoding of
  the low 32 bits \<open>v\<close> of \<open>u\<close>, with U+FFFD in place of a surrogate half and of a
  value above U+10FFFF.
\<close>

definition encode3 :: "nat \<Rightarrow> string" where
  "encode3 v = [char_of (0xE0 + v div 4096), char_of (0x80 + (v div 64) mod 64),
                char_of (0x80 + v mod 64)]"

definition WriteRune :: "string \<Rightarrow> nat \<Rightarrow> string" where
  "WriteRune b v =
     b @ (if v \<le> 0x7F then [char_of v]
          else if v \<le> 0x7FF then [char_of (0xC0 + v div 64), char_of (0x80 + v mod 64)]
          else if 0x10FFFF < v \<or> (0xD800 \<le> v \<and> v \<le> 0xDFFF) then encode3 0xFFFD
          else if v \<le> 0xFFFF then encode3 v
          else [char_of (0xF0 + v div 262144), char_of (0x80 + (v div 4096) mod 64),
                char_of (0x80 + (v div 64) mod 64), char_of (0x80 + v mod 64)])"

text \<open>
  \<^verbatim>\<open>func (r *Reader) nHex(line []byte, n int, b *strings.Builder)\<close>, with the
  accumulator \<open>u\<close> of its loop; the builder is passed and returned.
\<close>

fun nHex_loop :: "'u Reader \<Rightarrow> string \<Rightarrow> nat \<Rightarrow> nat \<Rightarrow> string \<Rightarrow> (string \<times> string) res" where
  "nHex_loop r line 0 u b = Ok (line, WriteRune b (u mod 2 ^ 32))"
| "nHex_loop r line (Suc n) u b =
     (case line of
        [] \<Rightarrow> Err (ErrUnexpectedEOF [])
      | c # rest \<Rightarrow>
          if isDigit c then nHex_loop r rest n (16 * u + (byte c - byte (CHR ''0''))) b
          else if between 65 70 c then
            nHex_loop r rest n (16 * u + (byte c - byte (CHR ''A'') + 10)) b
          else if between 97 102 c then
            nHex_loop r rest n (16 * u + (byte c - byte (CHR ''a'') + 10)) b
          else Err (syntaxErr r ''illegal hex in Unicode escape''))"

definition nHex :: "'u Reader \<Rightarrow> string \<Rightarrow> nat \<Rightarrow> string \<Rightarrow> (string \<times> string) res" where
  "nHex r line n b = nHex_loop r line n 0 b"

text \<open>
  \<^verbatim>\<open>func (r *Reader) inEscape(line []byte, b *strings.Builder)\<close>: the switch is on
  the first byte of \<open>line\<close>, and a byte with no case of its own is written as it is.
\<close>

definition inEscape :: "'u Reader \<Rightarrow> string \<Rightarrow> string \<Rightarrow> (string \<times> string) res" where
  "inEscape r line b =
     (case line of
        [] \<Rightarrow> Err (ErrUnexpectedEOF [])
      | c # rest \<Rightarrow>
          if c = CHR ''u'' then nHex r rest 4 b
          else if c = CHR ''U'' then nHex r rest 8 b
          else Ok (rest,
                   b @ [if c = CHR ''t'' then HT
                        else if c = CHR ''b'' then CHR 0x08
                        else if c = CHR ''n'' then LF
                        else if c = CHR ''r'' then CR
                        else if c = CHR ''f'' then CHR 0x0C
                        else c]))"

subsection \<open>After a quoted literal\<close>

text \<open>
  The methods that fill the triple \<^verbatim>\<open>t *Triple\<close> take it and return it with the
  remainder of the line.

  \<^verbatim>\<open>func (r *Reader) inLangTag(line []byte, t *Triple)\<close>; \<open>inLangTag_loop\<close> is its
  loop with the variables \<open>offset\<close> and \<open>i\<close>.
\<close>

function inLangTag_loop ::
  "'u Reader \<Rightarrow> string \<Rightarrow> Triple \<Rightarrow> nat \<Rightarrow> nat \<Rightarrow> (string \<times> Triple) res" where
  "inLangTag_loop r line t offset i =
     (if i < length line then
        (let c = line ! i in
         if isUpper c \<or> isLower c then inLangTag_loop r line t offset (i + 1)
         else if isDigit c then
           (if offset = 1 then Err (syntaxErr r ''decimal in first code of language tag'')
            else inLangTag_loop r line t offset (i + 1))
         else if c = CHR ''-'' then
           (if offset = i then Err (syntaxErr r ''empty code in language tag'')
            else inLangTag_loop r line t (i + 1) (i + 1))
         else if isWS c then
           (if offset = i then Err (syntaxErr r ''empty code in language tag'')
            else Ok (drop (i + 1) line, t\<lparr>LangTag := slice line 1 i\<rparr>))
         else Err (syntaxErr r ''illegal character in language tag''))
      else Err (ErrUnexpectedEOF []))"
  by pat_completeness auto
termination
  by (relation "measure (\<lambda>(r, line, t, offset, i). length line - i)") auto

definition inLangTag :: "'u Reader \<Rightarrow> string \<Rightarrow> Triple \<Rightarrow> (string \<times> Triple) res" where
  "inLangTag r line t = inLangTag_loop r line (t\<lparr>DatatypeIRI := rdfLangString\<rparr>) 1 1"

text \<open>
  \<^verbatim>\<open>func (r *Reader) inDatatype(line []byte, t *Triple)\<close>; \<open>readPrefix\<close> is the loop
  labelled \<^verbatim>\<open>ReadPrefix\<close>, which gives the label and the line after the colon, and
  \<open>datatypeLocal\<close> the last loop.
\<close>

function readPrefix :: "'u Reader \<Rightarrow> string \<Rightarrow> nat \<Rightarrow> (string \<times> string) res" where
  "readPrefix r line i =
     (if length line \<le> i then Err (ErrUnexpectedEOF [])
      else if isWS (line ! i) then Err (syntaxErr r ''datatype missing prefix'')
      else if line ! i = CHR '':'' then Ok (slice line 2 i, drop (i + 1) line)
      else readPrefix r line (i + 1))"
  by pat_completeness auto
termination
  by (relation "measure (\<lambda>(r, line, i). length line - i)") auto

function datatypeLocal :: "string \<Rightarrow> string \<Rightarrow> Triple \<Rightarrow> nat \<Rightarrow> (string \<times> Triple) res" where
  "datatypeLocal line prefix t i =
     (if i < length line then
        (if isWS (line ! i) then Ok (drop (i + 1) line, t\<lparr>DatatypeIRI := prefix @ take i line\<rparr>)
         else datatypeLocal line prefix t (i + 1))
      else Err (ErrUnexpectedEOF []))"
  by pat_completeness auto
termination
  by (relation "measure (\<lambda>(line, prefix, t, i). length line - i)") auto

definition inDatatype :: "'u env \<Rightarrow> 'u Reader \<Rightarrow> string \<Rightarrow> Triple \<Rightarrow> (string \<times> Triple) res" where
 \<open>inDatatype E r line t =
     (if length line < 3 \<and> (length line < 2 \<or> (length line < 3 \<and> line ! 1 = CHR ''^'')) then
        Err (ErrUnexpectedEOF [])
      else if line ! 1 \<noteq> CHR ''^'' then Err (syntaxErr r ''single "^" after quoted string'')
      else if length line < 4 then Err (ErrUnexpectedEOF [])
      else if line ! 2 = CHR ''<'' then
        (case inIRI E r (drop 2 line) of
           Ok (iri, remainder) \<Rightarrow> Ok (remainder, t\<lparr>DatatypeIRI := iri\<rparr>)
         | Err e \<Rightarrow> Err e
         | Panic msg \<Rightarrow> Panic msg)
      else
        (case readPrefix r line 2 of
           Ok (prefixLabel, line') \<Rightarrow>
             (case prefixPerLabel r prefixLabel of
                None \<Rightarrow> Err (syntaxErr r ''undefined prefix on datatype'')
              | Some prefix \<Rightarrow> datatypeLocal line' prefix t 0)
         | Err e \<Rightarrow> Err e
         | Panic msg \<Rightarrow> Panic msg))\<close>

text \<open>\<^verbatim>\<open>func (r *Reader) afterQuotedLiteral(line []byte, t *Triple)\<close>.\<close>

definition afterQuotedLiteral ::
  "'u env \<Rightarrow> 'u Reader \<Rightarrow> string \<Rightarrow> Triple \<Rightarrow> (string \<times> Triple) res" where
  "afterQuotedLiteral E r line t =
     (case line of
        [] \<Rightarrow> Ok (line, t\<lparr>DatatypeIRI := XSDString\<rparr>)
      | c # rest \<Rightarrow>
          if isWS c then Ok (rest, t\<lparr>DatatypeIRI := XSDString\<rparr>)
          else if c = CHR ''^'' then inDatatype E r line t
          else if c = CHR ''@'' then inLangTag r line t
          else Ok (line, t\<lparr>DatatypeIRI := XSDString\<rparr>))"

subsection \<open>Numeric literals\<close>

text \<open>
  \<^verbatim>\<open>func (r *Reader) inNumberWithSign(line []byte, signOffset int, t *Triple)\<close>.
  Its first loop is
  \<^verbatim>\<open>for { switch { case i >= len(line): return nil, io.ErrUnexpectedEOF
     case line[i] >= '0' && line[i] <= '9': continue }; break }\<close>
  and no statement of it changes \<open>i\<close>.  \<open>inNumber_digits\<close> is that loop: \<open>Some (Some e)\<close>
  when it returns the error \<open>e\<close>, \<open>Some None\<close> when it is left by \<^verbatim>\<open>break\<close>, and
  \<open>None\<close> when it is never left.
\<close>

partial_function (option) inNumber_digits :: "string \<Rightarrow> nat \<Rightarrow> error option option" where
  "inNumber_digits line i =
     (if length line \<le> i then Some (Some (ErrUnexpectedEOF []))
      else if isDigit (line ! i) then inNumber_digits line i
      else Some None)"

text \<open>The last loop, over the digits of the exponent; \<open>offset\<close> is where they start.\<close>

function inNumber_exponent ::
  "'u Reader \<Rightarrow> string \<Rightarrow> Triple \<Rightarrow> nat \<Rightarrow> nat \<Rightarrow> (string \<times> Triple) res" where
  "inNumber_exponent r line t offset i =
     (if i < length line then
        (if isDigit (line ! i) then inNumber_exponent r line t offset (i + 1)
         else if isWS (line ! i) then
           (if i = offset then Err (syntaxErr r ''no decimals in double exponent'')
            else Ok (drop (i + 1) line, t\<lparr>DatatypeIRI := XSDDouble, Object := take i line\<rparr>))
         else Err (syntaxErr r ''illegal charater in exponent of double''))
      else Err (ErrUnexpectedEOF []))"
  by pat_completeness auto
termination
  by (relation "measure (\<lambda>(r, line, t, offset, i). length line - i)") auto

text \<open>What follows the switch on \<^verbatim>\<open>line[i]\<close>, entered with \<open>i\<close> at the \<^verbatim>\<open>E\<close> or \<^verbatim>\<open>e\<close>.\<close>

definition inNumber_double ::
  "'u Reader \<Rightarrow> string \<Rightarrow> int \<Rightarrow> Triple \<Rightarrow> nat \<Rightarrow> (string \<times> Triple) res" where
  "inNumber_double r line signOffset t i =
     (if int i - signOffset < 3 then Err (syntaxErr r ''fraction of double without decimals'')
      else
        (let j = (if i + 1 < length line
                     \<and> (line ! (i + 1) = CHR ''+'' \<or> line ! (i + 1) = CHR ''-'')
                  then i + 2 else i + 1)
         in inNumber_exponent r line t j j))"

text \<open>The loop of the case \<^verbatim>\<open>'.'\<close>, entered with \<open>i\<close> at the byte before the next one read.\<close>

function inNumber_fraction ::
  "'u Reader \<Rightarrow> string \<Rightarrow> int \<Rightarrow> Triple \<Rightarrow> nat \<Rightarrow> (string \<times> Triple) res" where
  "inNumber_fraction r line signOffset t i =
     (if length line \<le> i + 1 then Err (ErrUnexpectedEOF [])
      else if isDigit (line ! (i + 1)) then inNumber_fraction r line signOffset t (i + 1)
      else if isWS (line ! (i + 1)) then
        (if line ! i = CHR ''.'' then Err (syntaxErr r ''decimal with empty fraction'')
         else Ok (drop (i + 2) line, t\<lparr>DatatypeIRI := XSDDecimal, Object := take (i + 1) line\<rparr>))
      else if line ! (i + 1) = CHR ''E'' \<or> line ! (i + 1) = CHR ''e'' then
        inNumber_double r line signOffset t (i + 1)
      else Err (syntaxErr r ''illegal character in fraction''))"
  by pat_completeness auto
termination
  by (relation "measure (\<lambda>(r, line, signOffset, t, i). length line - i)") auto

text \<open>The switch on \<^verbatim>\<open>line[i]\<close> after the first loop.\<close>

definition inNumber_switch ::
  "'u Reader \<Rightarrow> string \<Rightarrow> int \<Rightarrow> Triple \<Rightarrow> nat \<Rightarrow> (string \<times> Triple) res" where
  "inNumber_switch r line signOffset t i =
     (if isWS (line ! i) then
        (if int i - signOffset = 0 then Err (syntaxErr r ''sign without number'')
         else Ok (drop (i + 1) line, t\<lparr>DatatypeIRI := XSDInteger, Object := take i line\<rparr>))
      else if line ! i = CHR ''.'' then inNumber_fraction r line signOffset t i
      else if line ! i = CHR ''E'' \<or> line ! i = CHR ''e'' then
        inNumber_double r line signOffset t i
      else Err (syntaxErr r ''illegal character in number''))"

definition inNumberWithSign ::
  "'u Reader \<Rightarrow> string \<Rightarrow> int \<Rightarrow> Triple \<Rightarrow> (string \<times> Triple) res option" where
  "inNumberWithSign r line signOffset t =
     (case inNumber_digits line 1 of
        None \<Rightarrow> None
      | Some (Some e) \<Rightarrow> Some (Err e)
      | Some None \<Rightarrow> Some (inNumber_switch r line signOffset t 1))"

subsection \<open>Quoted literals\<close>

text \<open>
  The scans of \<^verbatim>\<open>inDoubleQuote\<close> and \<^verbatim>\<open>inSingleQuote\<close> differ in the quote byte
  \<open>q\<close> only.  \<open>shortScan\<close> is the loop over a short literal from index \<open>i\<close>; it ends at
  the closing quote, at a backslash, at a carriage return, at a new line, or with the
  line.  \<open>longScan\<close> is the loop after three quotes, which passes one or two quotes.
\<close>

datatype scan = Closed nat | Backslash nat | SawCR | SawLF | Exhausted

function shortScan :: "char \<Rightarrow> string \<Rightarrow> nat \<Rightarrow> scan" where
  "shortScan q line i =
     (if i < length line then
        (if line ! i = q then Closed i
         else if line ! i = BSL then Backslash i
         else if line ! i = CR then SawCR
         else if line ! i = LF then SawLF
         else shortScan q line (i + 1))
      else Exhausted)"
  by pat_completeness auto
termination
  by (relation "measure (\<lambda>(q, line, i). length line - i)") auto

function longScan :: "char \<Rightarrow> string \<Rightarrow> nat \<Rightarrow> scan" where
  "longScan q line i =
     (if i < length line then
        (if line ! i = q then
           (if length line \<le> i + 2 \<or> line ! (i + 1) \<noteq> q then longScan q line (i + 1)
            else if line ! (i + 2) \<noteq> q then longScan q line (i + 2)
            else Closed i)
         else if line ! i = BSL then Backslash i
         else longScan q line (i + 1))
      else Exhausted)"
  by pat_completeness auto
termination
  by (relation "measure (\<lambda>(q, line, i). length line - i)") auto

text \<open>
  \<^verbatim>\<open>inDoubleQuoteEscape\<close> and \<^verbatim>\<open>inSingleQuoteEscape\<close>.  The loop labelled
  \<^verbatim>\<open>Escape\<close> opens with \<^verbatim>\<open>line, err := r.inEscape(line, &b)\<close>, which declares a
  \<open>line\<close> of the loop body and reads the parameter \<open>line\<close>; \<^verbatim>\<open>continue Escape\<close>
  keeps the builder and nothing else.  \<^verbatim>\<open>strings.Builder.Grow\<close> panics on a
  negative count.
\<close>

partial_function (option) quoteEscape_loop ::
  "'u env \<Rightarrow> 'u Reader \<Rightarrow> char \<Rightarrow> string \<Rightarrow> string \<Rightarrow> Triple \<Rightarrow> (string \<times> Triple) res option"
where
  "quoteEscape_loop E r q line b t =
     (case inEscape r line b of
        Err e \<Rightarrow> Some (Err e)
      | Panic msg \<Rightarrow> Some (Panic msg)
      | Ok (line', b') \<Rightarrow>
          (case shortScan q line' 0 of
             Backslash i \<Rightarrow> quoteEscape_loop E r q line (b' @ take i line') t
           | Closed i \<Rightarrow>
               Some (afterQuotedLiteral E r (drop (i + 1) line') (t\<lparr>Object := b' @ take i line'\<rparr>))
           | SawCR \<Rightarrow> Some (Err (syntaxErr r ''new line in quoted literal''))
           | SawLF \<Rightarrow> Some (Err (syntaxErr r ''carriage return in quoted literal''))
           | Exhausted \<Rightarrow> Some (Err (ErrUnexpectedEOF ''quoted literal not closed''))))"

definition inDoubleQuoteEscape ::
  "'u env \<Rightarrow> 'u Reader \<Rightarrow> string \<Rightarrow> string \<Rightarrow> Triple \<Rightarrow> (string \<times> Triple) res option" where
  "inDoubleQuoteEscape E r copyAsIs line t =
     (if int (length copyAsIs) + int (length line) - 4 < 0
      then Some (Panic ''strings.Builder.Grow: negative count'')
      else quoteEscape_loop E r DQ line copyAsIs t)"

definition inSingleQuoteEscape ::
  "'u env \<Rightarrow> 'u Reader \<Rightarrow> string \<Rightarrow> string \<Rightarrow> Triple \<Rightarrow> (string \<times> Triple) res option" where
  "inSingleQuoteEscape E r copyAsIs line t =
     (if int (length copyAsIs) + int (length line) - 4 < 0
      then Some (Panic ''strings.Builder.Grow: negative count'')
      else quoteEscape_loop E r SQ line copyAsIs t)"

text \<open>An escape that returns normally has consumed at least one byte.\<close>

lemma nHex_loop_length:
  "nHex_loop r line n u b = Ok (line', b') \<Longrightarrow> length line' \<le> length line"
  by (induction r line n u b rule: nHex_loop.induct)
     (fastforce split: list.splits if_splits)+

lemma inEscape_length:
  "inEscape r line b = Ok (line', b') \<Longrightarrow> length line' < length line"
  by (auto simp: inEscape_def nHex_def split: list.splits if_splits
           dest!: nHex_loop_length)

text \<open>
  \<^verbatim>\<open>func (r *Reader) longSingleQuote(copyAsIs, line []byte, t *Triple)\<close>.
  \<open>longSingle_scan\<close> is its inner loop over one line, with the builder \<open>b\<close>: \<open>Inl\<close>
  what the method returns from inside the loop, \<open>Inr\<close> the builder after
  \<^verbatim>\<open>b.Write(line)\<close> when the loop ends with the line.  After an escape the loop goes
  on at index 1 of the remainder (\<^verbatim>\<open>i = 0\<close>, then the \<^verbatim>\<open>i++\<close> of the loop).
\<close>

function longSingle_scan ::
  "'u env \<Rightarrow> 'u Reader \<Rightarrow> string \<Rightarrow> string \<Rightarrow> Triple \<Rightarrow> nat \<Rightarrow> (string \<times> Triple) res + string"
where
  "longSingle_scan E r line b t i =
     (if i < length line then
        (if line ! i = BSL then
           (case inEscape r (drop i line) (b @ take i line) of
              Ok (line', b') \<Rightarrow> longSingle_scan E r line' b' t 1
            | Err e \<Rightarrow> Inl (Err e)
            | Panic msg \<Rightarrow> Inl (Panic msg))
         else if line ! i = SQ then
           (if length line \<le> i + 2 \<or> line ! (i + 1) \<noteq> SQ then longSingle_scan E r line b t (i + 1)
            else if line ! (i + 2) \<noteq> SQ then longSingle_scan E r line b t (i + 2)
            else Inl (afterQuotedLiteral E r (drop (i + 3) line) (t\<lparr>Object := b @ take i line\<rparr>)))
         else longSingle_scan E r line b t (i + 1))
      else Inr (b @ line))"
  by pat_completeness auto
termination
  by (relation "measure (\<lambda>(E, r, line, b, t, i). length line - i)")
     (auto dest!: inEscape_length)

text \<open>The outer loop reads the next line with \<^verbatim>\<open>r.line()\<close>.\<close>

partial_function (option) longSingle_loop ::
  "'u env \<Rightarrow> 'u Reader \<Rightarrow> string \<Rightarrow> string \<Rightarrow> Triple
     \<Rightarrow> ((string \<times> Triple) res \<times> 'u Reader) option"
where
  "longSingle_loop E r line b t =
     (case longSingle_scan E r line b t 0 of
        Inl x \<Rightarrow> Some (x, r)
      | Inr b' \<Rightarrow>
          (case Reader_line E r of
             (Ok line', r') \<Rightarrow> longSingle_loop E r' line' b' t
           | (Err e, r') \<Rightarrow>
               Some (Err (if e = EOF then ErrUnexpectedEOF ''long quoted literal not closed''
                          else e), r')
           | (Panic msg, r') \<Rightarrow> Some (Panic msg, r')))"

definition longSingleQuote ::
  "'u env \<Rightarrow> 'u Reader \<Rightarrow> string \<Rightarrow> string \<Rightarrow> Triple
     \<Rightarrow> ((string \<times> Triple) res \<times> 'u Reader) option" where
  "longSingleQuote E r copyAsIs line t = longSingle_loop E r line copyAsIs t"

text \<open>
  \<^verbatim>\<open>func (r *Reader) inDoubleQuote(line []byte, t *Triple)\<close>.  Both of its long-quote
  exits call \<^verbatim>\<open>r.longSingleQuote\<close>; the method \<^verbatim>\<open>longDoubleQuote\<close> of the source
  has no caller and is left out.
\<close>

definition inDoubleQuote ::
  "'u env \<Rightarrow> 'u Reader \<Rightarrow> string \<Rightarrow> Triple \<Rightarrow> ((string \<times> Triple) res \<times> 'u Reader) option" where
  "inDoubleQuote E r line t =
     (if 2 < length line \<and> line ! 1 = DQ \<and> line ! 2 = DQ then
        (case longScan DQ line 3 of
           Closed i \<Rightarrow>
             Some (afterQuotedLiteral E r (drop (i + 3) line) (t\<lparr>Object := slice line 3 i\<rparr>), r)
         | Backslash i \<Rightarrow> longSingleQuote E r (slice line 3 i) (drop i line) t
         | _ \<Rightarrow> longSingleQuote E r (drop 3 line) [] t)
      else
        (case shortScan DQ line 1 of
           Closed i \<Rightarrow>
             Some (afterQuotedLiteral E r (drop (i + 1) line) (t\<lparr>Object := slice line 1 i\<rparr>), r)
         | Backslash i \<Rightarrow>
             map_option (\<lambda>x. (x, r)) (inDoubleQuoteEscape E r (slice line 1 i) (drop i line) t)
         | SawCR \<Rightarrow> Some (Err (syntaxErr r ''new line in quoted literal''), r)
         | SawLF \<Rightarrow> Some (Err (syntaxErr r ''carriage return in quoted literal''), r)
         | Exhausted \<Rightarrow> Some (Err (ErrUnexpectedEOF ''quoted literal not closed''), r)))"

text \<open>\<^verbatim>\<open>func (r *Reader) inSingleQuote(line []byte, t *Triple)\<close>.\<close>

definition inSingleQuote ::
  "'u env \<Rightarrow> 'u Reader \<Rightarrow> string \<Rightarrow> Triple \<Rightarrow> ((string \<times> Triple) res \<times> 'u Reader) option" where
  "inSingleQuote E r line t =
     (if 2 < length line \<and> line ! 1 = SQ \<and> line ! 2 = SQ then
        (case longScan SQ line 3 of
           Closed i \<Rightarrow>
             Some (afterQuotedLiteral E r (drop (i + 3) line) (t\<lparr>Object := slice line 3 i\<rparr>), r)
         | Backslash i \<Rightarrow> longSingleQuote E r (slice line 3 i) (drop i line) t
         | _ \<Rightarrow> longSingleQuote E r (drop 3 line) [] t)
      else
        (case shortScan SQ line 1 of
           Closed i \<Rightarrow>
             Some (afterQuotedLiteral E r (drop (i + 1) line) (t\<lparr>Object := slice line 1 i\<rparr>), r)
         | Backslash i \<Rightarrow>
             map_option (\<lambda>x. (x, r)) (inSingleQuoteEscape E r (slice line 1 i) (drop i line) t)
         | SawCR \<Rightarrow> Some (Err (syntaxErr r ''new line in quoted literal''), r)
         | SawLF \<Rightarrow> Some (Err (syntaxErr r ''carriage return in quoted literal''), r)
         | Exhausted \<Rightarrow> Some (Err (ErrUnexpectedEOF ''quoted literal not closed''), r)))"

subsection \<open>Blank nodes and collections\<close>

text \<open>
  \<^verbatim>\<open>func (r *Reader) inBlankLabel(line []byte) (IRI string, remainder []byte, err error)\<close>;
  \<open>findWS line i\<close> is its loop, the first index from \<open>i\<close> on with white space.
\<close>

function findWS :: "string \<Rightarrow> nat \<Rightarrow> nat option" where
  "findWS line i =
     (if i < length line then (if isWS (line ! i) then Some i else findWS line (i + 1))
      else None)"
  by pat_completeness auto
termination
  by (relation "measure (\<lambda>(line, i). length line - i)") auto

definition inBlankLabel ::
  "'u env \<Rightarrow> 'u Reader \<Rightarrow> string \<Rightarrow> (string \<times> string) res \<times> 'u Reader" where
 \<open>inBlankLabel E r line =
     (if 1 < length line then
        (if line ! 1 \<noteq> CHR '':'' then
           (Err (syntaxErr r ''prefixed name starts with underscore ("_")''), r)
         else
           (case findWS line 2 of
              Some i \<Rightarrow>
                (case Reader_skolemIRIRoot E r of
                   (root, r') \<Rightarrow> (Ok (root @ ''blank#'' @ slice line 2 i, drop (i + 1) line), r'))
            | None \<Rightarrow> (Err (ErrUnexpectedEOF ''blank node not closed''), r)))
      else (Err (ErrUnexpectedEOF ''blank node not closed''), r))\<close>

text \<open>
  The methods that take \<^verbatim>\<open>dstp *[]Triple\<close> take the slice \<open>dst\<close> and return it
  beside the Reader.

  \<^verbatim>\<open>func (r *Reader) inAnonymous(line []byte, dstp *[]Triple)\<close>.  \<open>anonScan\<close> is the
  inner loop, which starts at index 1 of every line it is given; \<open>inAnonymous_loop\<close>
  the outer one.
\<close>

datatype anon = AnonClosed nat | AnonList | AnonExhausted

function anonScan :: "string \<Rightarrow> nat \<Rightarrow> anon" where
  "anonScan line i =
     (if i < length line then
        (if isWS (line ! i) then anonScan line (i + 1)
         else if line ! i = CHR '']'' then AnonClosed i
         else AnonList)
      else AnonExhausted)"
  by pat_completeness auto
termination
  by (relation "measure (\<lambda>(line, i). length line - i)") auto

partial_function (option) inAnonymous_loop ::
  "'u env \<Rightarrow> 'u Reader \<Rightarrow> string \<Rightarrow> string \<Rightarrow> Triple list
     \<Rightarrow> ((string \<times> string) res \<times> 'u Reader \<times> Triple list) option"
where
  "inAnonymous_loop E r line skolemIRI dst =
     (case anonScan line 1 of
        AnonClosed i \<Rightarrow> Some (Ok (skolemIRI, drop (i + 1) line), r, dst)
      | AnonList \<Rightarrow>
          Some (Panic ''TODO: anonymous predicate-object list not implemented yet'',
                r\<lparr>propListLevel := propListLevel r + 1\<rparr>, dst)
      | AnonExhausted \<Rightarrow>
          (case lineContinue E r [] of
             (Ok line', r') \<Rightarrow> inAnonymous_loop E r' line' skolemIRI dst
           | (Err e, r') \<Rightarrow> Some (Err e, r', dst)
           | (Panic msg, r') \<Rightarrow> Some (Panic msg, r', dst)))"

definition inAnonymous ::
  "'u env \<Rightarrow> 'u Reader \<Rightarrow> string \<Rightarrow> Triple list
     \<Rightarrow> ((string \<times> string) res \<times> 'u Reader \<times> Triple list) option" where
  "inAnonymous E r line dst =
     (case Reader_skolemIRIRoot E (r\<lparr>anonNodeNo := anonNodeNo r + 1\<rparr>) of
        (root, r') \<Rightarrow> inAnonymous_loop E r' line (root @ ''anon#'' @ itoa (anonNodeNo r')) dst)"

text \<open>\<^verbatim>\<open>func (r *Reader) inCollection(line []byte, dstp *[]Triple)\<close>: one statement.\<close>

definition inCollection ::
  "'u Reader \<Rightarrow> string \<Rightarrow> Triple list \<Rightarrow> (string \<times> string) res \<times> 'u Reader \<times> Triple list" where
  "inCollection r line dst = (Panic ''TODO: collection list not implemented yet'', r, dst)"

subsection \<open>Directives\<close>

text \<open>
  An index expression \<^verbatim>\<open>line[0]\<close> on an empty slice panics; the model says so where
  the source indexes a line without a test of its length.

  \<^verbatim>\<open>func (r *Reader) afterBaseDirective(line []byte, terminated bool)\<close>.  The error
  of \<^verbatim>\<open>url.Parse(s)\<close> is overwritten or dropped; the base is nil then.
\<close>

definition afterBaseDirective ::
  "'u env \<Rightarrow> 'u Reader \<Rightarrow> string \<Rightarrow> bool \<Rightarrow> string res \<times> 'u Reader" where
 \<open>afterBaseDirective E r line terminated =
     (case lineContinue E r line of
        (Err e, r1) \<Rightarrow> (Err e, r1)
      | (Panic msg, r1) \<Rightarrow> (Panic msg, r1)
      | (Ok [], r1) \<Rightarrow> (Panic ''index out of range'', r1)
      | (Ok (c # cs), r1) \<Rightarrow>
          if c \<noteq> CHR ''<'' then
            (Err (syntaxErr r1 ''IRI reference of base directive does not start with "<"''), r1)
          else
            (case inIRI E r1 (c # cs) of
               Err e \<Rightarrow> (Err e, r1)
             | Panic msg \<Rightarrow> (Panic msg, r1)
             | Ok (s, line1) \<Rightarrow>
                 (let r2 = r1\<lparr>BaseIRI := (case url_Parse E s of Inl msg \<Rightarrow> None | Inr u \<Rightarrow> Some u)\<rparr>
                  in if terminated then
                       (case lineContinue E r2 line1 of
                          (Err e, r3) \<Rightarrow> (Err e, r3)
                        | (Panic msg, r3) \<Rightarrow> (Panic msg, r3)
                        | (Ok [], r3) \<Rightarrow> (Panic ''index out of range'', r3)
                        | (Ok (d # ds), r3) \<Rightarrow>
                            if d \<noteq> CHR ''.'' then
                              (Err (syntaxErr r3 ''base directive not terminated with "."''), r3)
                            else (Ok ds, r3))
                     else (Ok line1, r2))))\<close>

text \<open>
  \<^verbatim>\<open>func (r *Reader) afterPrefixDirective(line []byte, terminated bool)\<close>;
  \<open>readLabel\<close> is the loop labelled \<^verbatim>\<open>ReadLabel\<close>, which gives the label and the line
  after the colon.
\<close>

function readLabel :: "'u Reader \<Rightarrow> string \<Rightarrow> nat \<Rightarrow> (string \<times> string) res" where
 \<open>readLabel r line i =
     (if length line \<le> i then Err (ErrUnexpectedEOF ''prefix directive label interrupted'')
      else if line ! i = CHR '':'' then Ok (take i line, drop (i + 1) line)
      else if isWS (line ! i) then Err (syntaxErr r ''prefix label without ":" suffix'')
      else readLabel r line (i + 1))\<close>
  by pat_completeness auto
termination
  by (relation "measure (\<lambda>(r, line, i). length line - i)") auto

definition afterPrefixDirective ::
  "'u env \<Rightarrow> 'u Reader \<Rightarrow> string \<Rightarrow> bool \<Rightarrow> string res \<times> 'u Reader" where
 \<open>afterPrefixDirective E r line terminated =
     (case lineContinue E r line of
        (Err e, r1) \<Rightarrow> (Err e, r1)
      | (Panic msg, r1) \<Rightarrow> (Panic msg, r1)
      | (Ok line1, r1) \<Rightarrow>
          (case readLabel r1 line1 0 of
             Err e \<Rightarrow> (Err e, r1)
           | Panic msg \<Rightarrow> (Panic msg, r1)
           | Ok (label, line2) \<Rightarrow>
               (case lineContinue E r1 line2 of
                  (Err e, r2) \<Rightarrow> (Err e, r2)
                | (Panic msg, r2) \<Rightarrow> (Panic msg, r2)
                | (Ok [], r2) \<Rightarrow> (Panic ''index out of range'', r2)
                | (Ok (c # cs), r2) \<Rightarrow>
                    if c \<noteq> CHR ''<'' then
                      (Err (syntaxErr r2 ''IRI of prefix directive does not start with "<"''), r2)
                    else
                      (case inIRI E r2 (c # cs) of
                         Err e \<Rightarrow> (Err e, r2)
                       | Panic msg \<Rightarrow> (Panic msg, r2)
                       | Ok (prefix, line3) \<Rightarrow>
                           (let r3 = r2\<lparr>prefixPerLabel := (prefixPerLabel r2)(label \<mapsto> prefix)\<rparr>
                            in if terminated then
                                 (case lineContinue E r3 line3 of
                                    (Err e, r4) \<Rightarrow> (Err e, r4)
                                  | (Panic msg, r4) \<Rightarrow> (Panic msg, r4)
                                  | (Ok [], r4) \<Rightarrow> (Panic ''index out of range'', r4)
                                  | (Ok (d # ds), r4) \<Rightarrow>
                                      if d \<noteq> CHR ''.'' then
                                        (Err (syntaxErr r4
                                           ''prefix directive is not terminated with "."''), r4)
                                      else (Ok ds, r4))
                               else (Ok line3, r3))))))\<close>

text \<open>\<^verbatim>\<open>func (r *Reader) inDirective(line []byte) (remainder []byte, err error)\<close>.\<close>

definition inDirective :: "'u env \<Rightarrow> 'u Reader \<Rightarrow> string \<Rightarrow> string res \<times> 'u Reader" where
 \<open>inDirective E r line =
     (if length line < 2 then (Err (ErrUnexpectedEOF ''directive interrupted''), r)
      else if line ! 1 = CHR ''b'' then
        (case inToken r (drop 1 line) ''base'' of
           Ok line1 \<Rightarrow> afterBaseDirective E r line1 True
         | Err e \<Rightarrow> (Err e, r)
         | Panic msg \<Rightarrow> (Panic msg, r))
      else if line ! 1 = CHR ''p'' then
        (case inToken r (drop 1 line) ''prefix'' of
           Ok line1 \<Rightarrow> afterPrefixDirective E r line1 True
         | Err e \<Rightarrow> (Err e, r)
         | Panic msg \<Rightarrow> (Panic msg, r))
      else (Err (syntaxErr r ''unknown directive; expected either "@base" or "@prefix"''), r))\<close>

subsection \<open>Prefixed names and keywords\<close>

text \<open>
  The loop labelled \<^verbatim>\<open>ReadToken\<close> is the same in \<^verbatim>\<open>readPredicate\<close>,
  \<^verbatim>\<open>inUndeterminedSubject\<close> and \<^verbatim>\<open>inUndeterminedObject\<close>: \<open>readToken\<close> gives the
  prefix label (\<open>None\<close> for the nil slice), the line and the index of the white space
  it stops at, or \<open>None\<close> when the line ends first.  At the first colon the line is cut
  behind it and the loop goes on at index 1 (\<^verbatim>\<open>i = 0\<close>, then the \<^verbatim>\<open>i++\<close> of the loop).
\<close>

function readToken ::
  "string option \<Rightarrow> string \<Rightarrow> nat \<Rightarrow> (string option \<times> string \<times> nat) option" where
  "readToken prefixLabel line i =
     (if length line \<le> i then None
      else if isWS (line ! i) then Some (prefixLabel, line, i)
      else if line ! i = CHR '':'' \<and> prefixLabel = None then
        readToken (Some (take i line)) (drop (i + 1) line) 1
      else readToken prefixLabel line (i + 1))"
  by pat_completeness auto
termination
  by (relation "measure (\<lambda>(prefixLabel, line, i). length line - i)") auto

text \<open>\<^verbatim>\<open>func (r *Reader) readPredicate(line []byte) (IRI string, remainder []byte, err error)\<close>.\<close>

definition readPredicate ::
  "'u env \<Rightarrow> 'u Reader \<Rightarrow> string \<Rightarrow> (string \<times> string) res \<times> 'u Reader" where
  "readPredicate E r line =
     (case lineContinue E r line of
        (Err e, r1) \<Rightarrow> (Err e, r1)
      | (Panic msg, r1) \<Rightarrow> (Panic msg, r1)
      | (Ok [], r1) \<Rightarrow> (Panic ''index out of range'', r1)
      | (Ok (c # cs), r1) \<Rightarrow>
          if c = CHR ''<'' then (inIRI E r1 (c # cs), r1)
          else
            (case readToken None (c # cs) 0 of
               None \<Rightarrow> (Err (ErrUnexpectedEOF ''predicate interrupted''), r1)
             | Some (None, line1, i) \<Rightarrow>
                 if i = 1 \<and> line1 ! 0 = CHR ''a'' then (Ok (rdfType, drop 2 line1), r1)
                 else (Err (syntaxErr r1 ''illegal predicate token''), r1)
             | Some (Some prefixLabel, line1, i) \<Rightarrow>
                 (case prefixPerLabel r1 prefixLabel of
                    None \<Rightarrow> (Err (syntaxErr r1 ''undefined prefix on predicate''), r1)
                  | Some prefix \<Rightarrow> (Ok (prefix @ take i line1, drop (i + 1) line1), r1))))"

text \<open>
  \<^verbatim>\<open>func (r *Reader) inUndeterminedSubject(line []byte)\<close>; the IRI is empty after a
  \<^verbatim>\<open>BASE\<close> or \<^verbatim>\<open>PREFIX\<close> directive.
\<close>

definition isBASE :: "string \<Rightarrow> bool" where
  "isBASE local =
     ((local ! 0 = CHR ''B'' \<or> local ! 0 = CHR ''b'') \<and>
      (local ! 1 = CHR ''A'' \<or> local ! 1 = CHR ''a'') \<and>
      (local ! 2 = CHR ''S'' \<or> local ! 2 = CHR ''s'') \<and>
      (local ! 3 = CHR ''E'' \<or> local ! 3 = CHR ''e''))"

definition isPREFIX :: "string \<Rightarrow> bool" where
  "isPREFIX local =
     ((local ! 0 = CHR ''P'' \<or> local ! 0 = CHR ''p'') \<and>
      (local ! 1 = CHR ''R'' \<or> local ! 1 = CHR ''r'') \<and>
      (local ! 2 = CHR ''E'' \<or> local ! 2 = CHR ''e'') \<and>
      (local ! 3 = CHR ''F'' \<or> local ! 3 = CHR ''f'') \<and>
      (local ! 4 = CHR ''I'' \<or> local ! 4 = CHR ''i'') \<and>
      (local ! 5 = CHR ''X'' \<or> local ! 5 = CHR ''x''))"

definition directiveResult :: "string res \<times> 'u Reader \<Rightarrow> (string \<times> string) res \<times> 'u Reader" where
  "directiveResult x = (case x of (y, r) \<Rightarrow> (map_res (\<lambda>line. ([], line)) y, r))"

definition inUndeterminedSubject ::
  "'u env \<Rightarrow> 'u Reader \<Rightarrow> string \<Rightarrow> (string \<times> string) res \<times> 'u Reader" where
  "inUndeterminedSubject E r line =
     (case readToken None line 0 of
        None \<Rightarrow> (Err (ErrUnexpectedEOF ''subject interrupted''), r)
      | Some (None, line1, i) \<Rightarrow>
          if i = 4 \<and> isBASE (take i line1) then
            directiveResult (afterBaseDirective E r (drop (i + 1) line1) False)
          else if i = 6 \<and> isPREFIX (take i line1) then
            directiveResult (afterPrefixDirective E r (drop (i + 1) line1) False)
          else (Err (syntaxErr r ''illegal subject token''), r)
      | Some (Some prefixLabel, line1, i) \<Rightarrow>
          (case prefixPerLabel r prefixLabel of
             None \<Rightarrow> (Err (syntaxErr r ''undefined prefix on subject node''), r)
           | Some prefix \<Rightarrow> (Ok (prefix @ take i line1, drop (i + 1) line1), r)))"

text \<open>
  \<^verbatim>\<open>func (r *Reader) inUndeterminedObject(line []byte, t *Triple)\<close>; each of the two
  keyword cases assigns \<^verbatim>\<open>t.Object = "true"\<close>.
\<close>

definition inUndeterminedObject ::
  "'u Reader \<Rightarrow> string \<Rightarrow> Triple \<Rightarrow> (string \<times> Triple) res" where
  "inUndeterminedObject r line t =
     (case readToken None line 0 of
        None \<Rightarrow> Err (ErrUnexpectedEOF ''object interrupted'')
      | Some (None, line1, i) \<Rightarrow>
          if take i line1 = ''true'' then
            Ok (drop (i + 1) line1, t\<lparr>Object := ''true'', DatatypeIRI := XSDBoolean\<rparr>)
          else if take i line1 = ''false'' then
            Ok (drop (i + 1) line1, t\<lparr>Object := ''true'', DatatypeIRI := XSDBoolean\<rparr>)
          else Err (syntaxErr r ''illegal object token'')
      | Some (Some prefixLabel, line1, i) \<Rightarrow>
          (case prefixPerLabel r prefixLabel of
             None \<Rightarrow> Err (syntaxErr r ''undefined prefix on object node'')
           | Some prefix \<Rightarrow> Ok (drop (i + 1) line1, t\<lparr>Object := prefix @ take i line1\<rparr>)))"

subsection \<open>Statements\<close>

text \<open>
  \<^verbatim>\<open>t.Object, remainder, err = r.inIRI(line)\<close> and its like: the IRI becomes the
  object of \<open>t\<close>.
\<close>

definition asObject :: "Triple \<Rightarrow> (string \<times> string) res \<Rightarrow> (string \<times> Triple) res" where
  "asObject t x = map_res (\<lambda>(iri, remainder). (remainder, t\<lparr>Object := iri\<rparr>)) x"

text \<open>\<^verbatim>\<open>func (r *Reader) readObject(line []byte, t *Triple, dstp *[]Triple)\<close>.\<close>

definition readObject ::
  "'u env \<Rightarrow> 'u Reader \<Rightarrow> string \<Rightarrow> Triple \<Rightarrow> Triple list
     \<Rightarrow> ((string \<times> Triple) res \<times> 'u Reader \<times> Triple list) option" where
  "readObject E r line t dst =
     (case lineContinue E r line of
        (Err e, r1) \<Rightarrow> Some (Err e, r1, dst)
      | (Panic msg, r1) \<Rightarrow> Some (Panic msg, r1, dst)
      | (Ok [], r1) \<Rightarrow> Some (Panic ''index out of range'', r1, dst)
      | (Ok (c # cs), r1) \<Rightarrow>
          if c = CHR ''<'' then Some (asObject t (inIRI E r1 (c # cs)), r1, dst)
          else if c = CHR ''_'' then
            (case inBlankLabel E r1 (c # cs) of (x, r2) \<Rightarrow> Some (asObject t x, r2, dst))
          else if c = CHR ''['' then
            map_option (\<lambda>(x, r2, dst2). (asObject t x, r2, dst2)) (inAnonymous E r1 (c # cs) dst)
          else if c = CHR ''('' then
            (case inCollection r1 (c # cs) dst of (x, r2, dst2) \<Rightarrow> Some (asObject t x, r2, dst2))
          else if c = DQ then
            map_option (\<lambda>(x, r2). (x, r2, dst)) (inDoubleQuote E r1 (c # cs) t)
          else if c = SQ then
            map_option (\<lambda>(x, r2). (x, r2, dst)) (inSingleQuote E r1 (c # cs) t)
          else if c = CHR ''+'' \<or> c = CHR ''-'' then
            map_option (\<lambda>x. (x, r1, dst)) (inNumberWithSign r1 (c # cs) 1 t)
          else if c = CHR ''.'' \<or> isDigit c then
            map_option (\<lambda>x. (x, r1, dst)) (inNumberWithSign r1 (c # cs) 0 t)
          else Some (inUndeterminedObject r1 (c # cs) t, r1, dst))"

text \<open>
  \<^verbatim>\<open>func (r *Reader) readSubject(dstp *[]Triple)\<close>.  \<open>readSubject_switch\<close> is the
  switch on \<^verbatim>\<open>line[0]\<close> in its loop: \<open>Inl\<close> what the method returns from there,
  \<open>Inr\<close> the line and the Reader after a directive, with which the loop goes on.
\<close>

definition readSubject_switch ::
  "'u env \<Rightarrow> 'u Reader \<Rightarrow> string \<Rightarrow> Triple list
     \<Rightarrow> (((string \<times> string) res \<times> 'u Reader \<times> Triple list) + (string \<times> 'u Reader)) option"
where
  "readSubject_switch E r line dst =
     (case line of
        [] \<Rightarrow> Some (Inl (Panic ''index out of range'', r, dst))
      | c # cs \<Rightarrow>
          if c = CHR ''@'' then
            (case inDirective E r line of
               (Ok line1, r1) \<Rightarrow> Some (Inr (line1, r1))
             | (Err e, r1) \<Rightarrow> Some (Inl (Err e, r1, dst))
             | (Panic msg, r1) \<Rightarrow> Some (Inl (Panic msg, r1, dst)))
          else if c = CHR ''<'' then Some (Inl (inIRI E r line, r, dst))
          else if c = CHR ''['' then map_option Inl (inAnonymous E r line dst)
          else if c = CHR ''('' then Some (Inl (inCollection r line dst))
          else if c = CHR ''_'' then
            (case inBlankLabel E r line of (x, r1) \<Rightarrow> Some (Inl (x, r1, dst)))
          else
            (case inUndeterminedSubject E r line of
               (Ok (iri, line1), r1) \<Rightarrow>
                 if iri \<noteq> [] then Some (Inl (Ok (iri, line1), r1, dst))
                 else Some (Inr (line1, r1))
             | (Err e, r1) \<Rightarrow> Some (Inl (Err e, r1, dst))
             | (Panic msg, r1) \<Rightarrow> Some (Inl (Panic msg, r1, dst))))"

partial_function (option) readSubject_loop ::
  "'u env \<Rightarrow> 'u Reader \<Rightarrow> string \<Rightarrow> Triple list
     \<Rightarrow> ((string \<times> string) res \<times> 'u Reader \<times> Triple list) option"
where
  "readSubject_loop E r line dst =
     (case readSubject_switch E r line dst of
        None \<Rightarrow> None
      | Some (Inl x) \<Rightarrow> Some x
      | Some (Inr (line1, r1)) \<Rightarrow>
          (case lineContinue E r1 line1 of
             (Ok line2, r2) \<Rightarrow> readSubject_loop E r2 line2 dst
           | (Err e, r2) \<Rightarrow> Some (Err e, r2, dst)
           | (Panic msg, r2) \<Rightarrow> Some (Panic msg, r2, dst)))"

definition readSubject ::
  "'u env \<Rightarrow> 'u Reader \<Rightarrow> Triple list
     \<Rightarrow> ((string \<times> string) res \<times> 'u Reader \<times> Triple list) option" where
  "readSubject E r dst =
     (case Reader_line E r of
        (Ok line, r1) \<Rightarrow> readSubject_loop E r1 line dst
      | (Err e, r1) \<Rightarrow> Some (Err e, r1, dst)
      | (Panic msg, r1) \<Rightarrow> Some (Panic msg, r1, dst))"

text \<open>
  \<^verbatim>\<open>func (r *Reader) ReadAppend(dst []Triple) ([]Triple, error)\<close>.  A call returns the
  slice and an error or nil (\<open>Returns\<close>), or it panics (\<open>Panics\<close>); \<open>None\<close> is a call
  that never returns.  \<open>ReadAppend_loop\<close> is the pair of loops labelled
  \<^verbatim>\<open>ReadPredicate\<close> and \<^verbatim>\<open>ReadObject\<close>: with predicate \<open>None\<close> at the head of the
  first, with \<open>Some predicate\<close> at the head of the second.
\<close>

datatype call = Returns "Triple list" "error option" | Panics string

partial_function (option) ReadAppend_loop ::
  "'u env \<Rightarrow> 'u Reader \<Rightarrow> string \<Rightarrow> string option \<Rightarrow> string \<Rightarrow> Triple list
     \<Rightarrow> (call \<times> 'u Reader) option"
where
  "ReadAppend_loop E r subject predicate line dst =
     (case predicate of
        None \<Rightarrow>
          (case readPredicate E r line of
             (Ok (p, line1), r1) \<Rightarrow> ReadAppend_loop E r1 subject (Some p) line1 dst
           | (Err e, r1) \<Rightarrow> Some (Returns dst (Some e), r1)
           | (Panic msg, r1) \<Rightarrow> Some (Panics msg, r1))
      | Some p \<Rightarrow>
          (case readObject E r line
                  \<lparr>SubjectIRI = subject, PredicateIRI = p, Object = [], DatatypeIRI = [],
                   LangTag = []\<rparr> dst of
             None \<Rightarrow> None
           | Some (Err e, r1, dst1) \<Rightarrow> Some (Returns dst1 (Some e), r1)
           | Some (Panic msg, r1, dst1) \<Rightarrow> Some (Panics msg, r1)
           | Some (Ok (line1, t), r1, dst1) \<Rightarrow>
               (case lineContinue E r1 line1 of
                  (Err e, r2) \<Rightarrow> Some (Returns (dst1 @ [t]) (Some e), r2)
                | (Panic msg, r2) \<Rightarrow> Some (Panics msg, r2)
                | (Ok [], r2) \<Rightarrow> Some (Panics ''index out of range'', r2)
                | (Ok (c # cs), r2) \<Rightarrow>
                    if c = CHR ''.'' then Some (Returns (dst1 @ [t]) None, r2\<lparr>pending := cs, pendingStale := False\<rparr>)
                    else if c = CHR '','' then
                      ReadAppend_loop E r2 subject (Some p) cs (dst1 @ [t])
                    else if c = CHR '';'' then
                      ReadAppend_loop E r2 subject None cs (dst1 @ [t])
                    else
                      Some (Returns (dst1 @ [t])
                              (Some (syntaxErr r2 ''illegal triple continuation'')), r2))))"

definition ReadAppend ::
  "'u env \<Rightarrow> 'u Reader \<Rightarrow> Triple list \<Rightarrow> (call \<times> 'u Reader) option" where
  "ReadAppend E r dst =
     (case readSubject E r dst of
        None \<Rightarrow> None
      | Some (Err e, r1, dst1) \<Rightarrow> Some (Returns dst1 (Some e), r1)
      | Some (Panic msg, r1, dst1) \<Rightarrow> Some (Panics msg, r1)
      | Some (Ok (subject, line), r1, dst1) \<Rightarrow> ReadAppend_loop E r1 subject None line dst1)"

text \<open>The Reader a caller makes as \<^verbatim>\<open>Reader{R: b}\<close>, every other field zero.\<close>

definition newReader :: "bufio \<Rightarrow> 'u Reader" where
  "newReader b =
     \<lparr>R = b, pending = [], pendingStale = False, BaseIRI = None, prefixPerLabel = Map.empty, lineNo = 0,
      anonNodeNo = 0, collectionLevel = 0, propListLevel = 0, skolemIRICache = []\<rparr>"

text \<open>
  An instance of the library parameters, for the examples below: a reference parses to
  its own text, the scheme is the text before the first colon, and resolution puts the
  reference behind the base.  On the absolute IRIs of the examples it gives the scheme
  that \<^verbatim>\<open>net/url\<close> gives.  The buffer keeps the bytes under \<^verbatim>\<open>r.pending\<close>; the
  examples call a fresh Reader once, where the slice is nil whenever it is read.
\<close>

definition sampleEnv :: "string env" where
  "sampleEnv =
     \<lparr>url_Parse = Inr,
      url_Scheme = (\<lambda>u. if CHR '':'' \<in> set u then takeWhile (\<lambda>c. c \<noteq> CHR '':'') u else []),
      url_ResolveReference = (\<lambda>b l. b @ l),
      url_String = id,
      session = ''17f3a9c2e4b0d5a6'',
      aliased = pending\<rparr>"

section \<open>Facts about the loops\<close>

text \<open>
  The equations of the loops are unfolded where a proof asks for them, and together
  with the definitions they evaluate a call on a given input (\<open>ev\<close>).
\<close>

declare inLangTag_loop.simps [simp del] datatypeLocal.simps [simp del]
  inNumber_exponent.simps [simp del] inNumber_fraction.simps [simp del]
  longSingle_scan.simps [simp del] inIRI_loop.simps [simp del] readPrefix.simps [simp del]
  readToken.simps [simp del] shortScan.simps [simp del] longScan.simps [simp del]
  anonScan.simps [simp del] findWS.simps [simp del] readLabel.simps [simp del]
  inToken_loop.simps [simp del] line_loop.simps [simp del]

text \<open>
  The first loop of \<^verbatim>\<open>inNumberWithSign\<close> is left at once or never: it does not
  return when the byte at \<open>i\<close> is a digit.
\<close>

lemma inNumber_digits_Some:
  assumes "inNumber_digits line i = Some y"
  shows "\<not> (i < length line \<and> isDigit (line ! i))"
  using assms
  by (induct rule: inNumber_digits.raw_induct[rotated 1, consumes 1]) (auto split: if_splits)

lemma inNumber_digits_eq:
  "inNumber_digits line i =
     (if length line \<le> i then Some (Some (ErrUnexpectedEOF []))
      else if isDigit (line ! i) then None else Some None)"
proof (cases "i < length line \<and> isDigit (line ! i)")
  case True
  then have "inNumber_digits line i = None"
    using inNumber_digits_Some[of line i] by (cases "inNumber_digits line i") auto
  with True show ?thesis by simp
next
  case False
  then show ?thesis by (subst inNumber_digits.simps) auto
qed

lemmas ev =
  ReadAppend_def readSubject_def Reader_line_def pendingBytes_def newReader_def NewReader_def NewReaderSize_def
  ReadSlice_def lineContinue_def readSubject_switch_def inDirective_def inToken_def
  afterBaseDirective_def afterPrefixDirective_def inIRI_def slice_def syntaxErr_def isWS_def
  isDigit_def isUpper_def isLower_def byte_def between_def readSubject_loop.simps
  ReadAppend_loop.simps Let_def inBlankLabel_def Reader_skolemIRIRoot_def readPredicate_def
  readObject_def inNumberWithSign_def inNumber_digits_eq inUndeterminedObject_def
  inUndeterminedSubject_def inCollection_def asObject_def inDoubleQuote_def inSingleQuote_def
  inDoubleQuoteEscape_def inSingleQuoteEscape_def quoteEscape_loop.simps inEscape_def
  afterQuotedLiteral_def inLangTag_def inDatatype_def inNumber_switch_def inNumber_double_def
  rdfType_def skolemIRIRoot_def XSDBoolean_def XSDString_def XSDInteger_def rdfLangString_def
  directiveResult_def isBASE_def isPREFIX_def Triple_String_def Quote_def quoteASCII_def
  inLangTag_loop.simps datatypeLocal.simps inNumber_exponent.simps inNumber_fraction.simps
  longSingle_scan.simps inIRI_loop.simps readPrefix.simps readToken.simps shortScan.simps
  longScan.simps anonScan.simps findWS.simps readLabel.simps inToken_loop.simps
  line_loop.simps

subsection \<open>What a call leaves in the triple and in the slice\<close>

text \<open>
  \<open>okTag\<close> is the invariant of a triple with a language tag; \<open>resTag\<close>, \<open>optTag\<close>,
  \<open>optDst\<close>, \<open>swDst\<close> and \<open>appended\<close> carry it, and the slice a call started
  with, through the results of the methods.
\<close>

definition okTag :: "Triple \<Rightarrow> bool" where
  "okTag t = (LangTag t = [] \<or> DatatypeIRI t = rdfLangString)"


definition resTag :: "(string \<times> Triple) res \<Rightarrow> bool" where
  "resTag y = (case y of Ok (remainder, t') \<Rightarrow> okTag t' | _ \<Rightarrow> True)"

lemma inLangTag_loop_tag:
  "inLangTag_loop r line t offset i = Ok (rem, t') \<Longrightarrow> DatatypeIRI t' = DatatypeIRI t"
proof (induction r line t offset i rule: inLangTag_loop.induct)
  case (1 r line t offset i)
  from "1.prems" show ?case
    by (subst (asm) inLangTag_loop.simps)
       (use "1.IH" in \<open>auto simp: Let_def split: if_splits\<close>)
qed

lemma inLangTag_tag: "inLangTag r line t = Ok (rem, t') \<Longrightarrow> okTag t'"
  by (auto simp: inLangTag_def okTag_def dest!: inLangTag_loop_tag)

lemma datatypeLocal_tag:
  "datatypeLocal line prefix t i = Ok (rem, t') \<Longrightarrow> LangTag t' = LangTag t"
proof (induction line prefix t i rule: datatypeLocal.induct)
  case (1 line prefix t i)
  from "1.prems" show ?case
    by (subst (asm) datatypeLocal.simps) (use "1.IH" in \<open>auto split: if_splits\<close>)
qed

lemma inDatatype_tag:
  "inDatatype E r line t = Ok (rem, t') \<Longrightarrow> LangTag t' = LangTag t"
  by (auto simp: inDatatype_def split: if_splits res.splits option.splits dest: datatypeLocal_tag)

lemma resTag_simps [simp]:
  "resTag (Ok (remainder, t)) = okTag t" "resTag (Err e)" "resTag (Panic msg)"
  by (simp_all add: resTag_def)

lemma afterQuotedLiteral_tag [simp]:
  "LangTag t = [] \<Longrightarrow> resTag (afterQuotedLiteral E r line t)"
  by (auto simp: afterQuotedLiteral_def okTag_def resTag_def split: list.splits if_splits res.splits
      dest: inDatatype_tag inLangTag_tag)

lemma inNumber_exponent_tag:
  "inNumber_exponent r line t offset i = Ok (rem, t') \<Longrightarrow> LangTag t' = LangTag t"
proof (induction r line t offset i rule: inNumber_exponent.induct)
  case (1 r line t offset i)
  from "1.prems" show ?case
    by (subst (asm) inNumber_exponent.simps) (use "1.IH" in \<open>auto split: if_splits\<close>)
qed

lemma inNumber_double_tag:
  "inNumber_double r line signOffset t i = Ok (rem, t') \<Longrightarrow> LangTag t' = LangTag t"
  by (auto simp: inNumber_double_def Let_def split: if_splits dest: inNumber_exponent_tag)

lemma inNumber_fraction_tag:
  "inNumber_fraction r line signOffset t i = Ok (rem, t') \<Longrightarrow> LangTag t' = LangTag t"
proof (induction r line signOffset t i rule: inNumber_fraction.induct)
  case (1 r line signOffset t i)
  from "1.prems" show ?case
    by (subst (asm) inNumber_fraction.simps)
       (use "1.IH" in \<open>auto split: if_splits dest: inNumber_double_tag\<close>)
qed

lemma inNumberWithSign_tag:
  "inNumberWithSign r line signOffset t = Some y \<Longrightarrow> LangTag t = [] \<Longrightarrow> resTag y"
  by (auto simp: inNumberWithSign_def inNumber_switch_def resTag_def okTag_def
      split: option.splits if_splits res.splits dest: inNumber_fraction_tag inNumber_double_tag)

lemma quoteEscape_loop_tag:
  assumes "quoteEscape_loop E r q line b t = Some y"
  shows "LangTag t = [] \<longrightarrow> resTag y"
  using assms
proof (induction rule: quoteEscape_loop.raw_induct[rotated 1, consumes 1])
  case (1 loop E r q line b t y)
  then show ?case
    by (auto split: res.splits scan.splits prod.splits)
qed

lemma longSingle_scan_tag:
  "longSingle_scan E r line b t i = Inl y \<Longrightarrow> LangTag t = [] \<Longrightarrow> resTag y"
proof (induction E r line b t i rule: longSingle_scan.induct)
  case (1 E r line b t i)
  from "1.prems" show ?case
    by (subst (asm) longSingle_scan.simps)
       (use "1.IH" in \<open>auto split: if_splits res.splits prod.splits\<close>)
qed

lemma longSingle_loop_tag:
  assumes "longSingle_loop E r line b t = Some z"
  shows "LangTag t = [] \<longrightarrow> resTag (fst z)"
  using assms
proof (induction rule: longSingle_loop.raw_induct[rotated 1, consumes 1])
  case (1 loop E r line b t z)
  then show ?case
    by (auto split: sum.splits res.splits prod.splits dest: longSingle_scan_tag)
qed



lemma longSingle_loop_tag':
  "longSingle_loop E r line b t = Some z \<Longrightarrow> LangTag t = [] \<Longrightarrow> resTag (fst z)"
  using longSingle_loop_tag by blast

lemma quoteEscape_loop_tag':
  "quoteEscape_loop E r q line b t = Some y \<Longrightarrow> LangTag t = [] \<Longrightarrow> resTag y"
  using quoteEscape_loop_tag by blast

lemma inDoubleQuote_tag:
  assumes "inDoubleQuote E r line t = Some z" and "LangTag t = []"
  shows "resTag (fst z)"
proof (cases "2 < length line \<and> line ! 1 = DQ \<and> line ! 2 = DQ")
  case True
  with assms show ?thesis
    by (cases "longScan DQ line 3")
       (auto simp: inDoubleQuote_def longSingleQuote_def dest: longSingle_loop_tag')
next
  case False
  with assms show ?thesis
    by (cases "shortScan DQ line 1")
       (auto simp: inDoubleQuote_def inDoubleQuoteEscape_def split: if_splits
             dest: quoteEscape_loop_tag')
qed


lemma inSingleQuote_tag:
  assumes "inSingleQuote E r line t = Some z" and "LangTag t = []"
  shows "resTag (fst z)"
proof (cases "2 < length line \<and> line ! 1 = SQ \<and> line ! 2 = SQ")
  case True
  with assms show ?thesis
    by (cases "longScan SQ line 3")
       (auto simp: inSingleQuote_def longSingleQuote_def dest: longSingle_loop_tag')
next
  case False
  with assms show ?thesis
    by (cases "shortScan SQ line 1")
       (auto simp: inSingleQuote_def inSingleQuoteEscape_def split: if_splits
             dest: quoteEscape_loop_tag')
qed

lemma inUndeterminedObject_tag:
  "LangTag t = [] \<Longrightarrow> resTag (inUndeterminedObject r line t)"
  by (simp add: inUndeterminedObject_def okTag_def split: option.split prod.split)

lemma asObject_tag: "LangTag t = [] \<Longrightarrow> resTag (asObject t x)"
  by (cases x) (auto simp: asObject_def okTag_def)

definition optTag :: "((string \<times> Triple) res \<times> 'a) option \<Rightarrow> bool" where
  "optTag X = (case X of None \<Rightarrow> True | Some z \<Rightarrow> resTag (fst z))"

lemma optTag_simps [simp]:
  "optTag None" "optTag (Some (x, s)) = resTag x"
  "optTag (map_option (\<lambda>(x, r2). (x, r2, d)) X) = optTag X"
  "optTag (map_option (\<lambda>x. (x, s)) Y) = (case Y of None \<Rightarrow> True | Some y \<Rightarrow> resTag y)"
  by (auto simp: optTag_def split: option.splits)

lemma optTag_I: "(\<And>z. X = Some z \<Longrightarrow> resTag (fst z)) \<Longrightarrow> optTag X"
  by (auto simp: optTag_def split: option.splits)

lemma readObject_tag:
  assumes tag: "LangTag t = []"
  shows "optTag (readObject E r line t dst)"
proof -
  have dq: "optTag (inDoubleQuote E r1 l t)" for r1 l
    using tag by (auto intro!: optTag_I dest: inDoubleQuote_tag)
  have sq: "optTag (inSingleQuote E r1 l t)" for r1 l
    using tag by (auto intro!: optTag_I dest: inSingleQuote_tag)
  have num: "(case inNumberWithSign r1 l k t of None \<Rightarrow> True | Some y \<Rightarrow> resTag y)" for r1 l k
    using tag by (auto split: option.splits dest: inNumberWithSign_tag)
  have anon: "optTag (map_option (\<lambda>(x, y). (asObject t x, y)) X)"
    for X :: "((string \<times> string) res \<times> 'a Reader \<times> Triple list) option"
    using tag by (cases X) (auto simp: asObject_tag)
  show ?thesis
    unfolding readObject_def
    by (simp add: tag asObject_tag inUndeterminedObject_tag dq sq num anon inCollection_def
          split: prod.split res.split list.split)
qed

lemma inAnonymous_loop_dst:
  assumes "inAnonymous_loop E r line skolemIRI dst = Some z"
  shows "snd (snd z) = dst"
  using assms
proof (induction rule: inAnonymous_loop.raw_induct[rotated 1, consumes 1])
  case (1 loop E r line skolemIRI dst z)
  then show ?case
    by (auto split: anon.splits prod.splits res.splits)
qed

lemma inAnonymous_dst: "inAnonymous E r line dst = Some z \<Longrightarrow> snd (snd z) = dst"
  by (auto simp: inAnonymous_def split: prod.splits dest: inAnonymous_loop_dst)

definition optDst :: "Triple list \<Rightarrow> ('b \<times> 'a \<times> Triple list) option \<Rightarrow> bool" where
  "optDst dst X = (case X of None \<Rightarrow> True | Some z \<Rightarrow> snd (snd z) = dst)"

lemma optDst_simps [simp]:
  "optDst dst None" "optDst dst (Some (x, s, d)) = (d = dst)"
  "optDst dst (map_option (\<lambda>(x, r2). (x, r2, dst)) Y)"
  "optDst dst (map_option (\<lambda>x. (x, s, dst)) Z)"
  "optDst dst (map_option (\<lambda>(x, y). (f x, y)) X) = optDst dst X"
  by (auto simp: optDst_def split: option.splits)

lemma inAnonymous_optDst: "optDst dst (inAnonymous E r line dst)"
  by (auto simp: optDst_def split: option.splits dest: inAnonymous_dst)

lemma readObject_dst: "optDst dst (readObject E r line t dst)"
  unfolding readObject_def
  by (simp add: inAnonymous_optDst inCollection_def split: prod.split res.split list.split)

definition swDst ::
  "Triple list \<Rightarrow> (('b \<times> 'a \<times> Triple list) + 'c) option \<Rightarrow> bool" where
  "swDst dst X = (case X of Some (Inl z) \<Rightarrow> snd (snd z) = dst | _ \<Rightarrow> True)"

lemma swDst_simps [simp]:
  "swDst dst None" "swDst dst (Some (Inr y))" "swDst dst (Some (Inl (x, s, d))) = (d = dst)"
  "swDst dst (map_option Inl X) = optDst dst X"
  by (auto simp: swDst_def optDst_def split: option.splits)

lemma readSubject_switch_dst: "swDst dst (readSubject_switch E r line dst)"
  unfolding readSubject_switch_def
  by (simp add: inCollection_def inAnonymous_optDst split: list.split prod.split res.split)

lemma readSubject_loop_dst:
  assumes "readSubject_loop E r line dst = Some z"
  shows "snd (snd z) = dst"
  using assms
proof (induction rule: readSubject_loop.raw_induct[rotated 1, consumes 1])
  case (1 loop E r line dst z)
  from 1 readSubject_switch_dst[where E = E and r = r and line = line and dst = dst] show ?case
    by (auto simp: swDst_def split: option.splits sum.splits prod.splits res.splits)
qed

lemma readSubject_dst: "optDst dst (readSubject E r dst)"
  by (auto simp: readSubject_def optDst_def split: prod.splits res.splits option.splits
      dest: readSubject_loop_dst)

definition appended :: "Triple list \<Rightarrow> call \<Rightarrow> bool" where
  "appended dst c =
     (case c of Returns dst' err \<Rightarrow> (\<exists>new. dst' = dst @ new \<and> list_all okTag new)
      | Panics msg \<Rightarrow> True)"

lemma appended_simps [simp]:
  "appended dst (Returns dst e)" "appended dst (Panics msg)"
  by (simp_all add: appended_def)

lemma appended_step:
  "okTag t \<Longrightarrow> appended (dst @ [t]) c \<Longrightarrow> appended dst c"
  by (cases c) (auto simp: appended_def)

lemma appended_last: "okTag t \<Longrightarrow> appended dst (Returns (dst @ [t]) e)"
  by (simp add: appended_def)

lemma ReadAppend_loop_appended:
  assumes "ReadAppend_loop E r subject predicate line dst = Some z"
  shows "appended dst (fst z)"
  using assms
proof (induction rule: ReadAppend_loop.raw_induct[rotated 1, consumes 1])
  case (1 loop E r subject predicate line dst z)
  show ?case
  proof (cases predicate)
    case None
    with 1 show ?thesis
      by (auto split: prod.splits res.splits)
  next
    case (Some p)
    let ?t = "\<lparr>SubjectIRI = subject, PredicateIRI = p, Object = [], DatatypeIRI = [],
                LangTag = []\<rparr>"
    from 1(2) Some obtain y where
      ro: "readObject E r line ?t dst = Some y"
      by (auto split: option.splits)
    obtain x r1 dst1 where y: "y = (x, r1, dst1)" by (cases y)
    from readObject_dst[of dst E r line ?t] ro y have d: "dst1 = dst"
      by (simp add: optDst_def)
    from readObject_tag[of ?t E r line dst] ro y have tg: "resTag x"
      by (simp add: optTag_def)
    show ?thesis
    proof (cases x)
      case (Ok v)
      obtain line1 t where v: "v = (line1, t)" by (cases v)
      from tg Ok v have t: "okTag t" by simp
      from 1(2) Some ro y Ok v d
      have step: "(case lineContinue E r1 line1 of
                  (Err e, r2) \<Rightarrow> Some (Returns (dst @ [t]) (Some e), r2)
                | (Panic msg, r2) \<Rightarrow> Some (Panics msg, r2)
                | (Ok [], r2) \<Rightarrow> Some (Panics ''index out of range'', r2)
                | (Ok (c # cs), r2) \<Rightarrow>
                    if c = CHR ''.'' then Some (Returns (dst @ [t]) None, r2\<lparr>pending := cs, pendingStale := False\<rparr>)
                    else if c = CHR '','' then loop E r2 subject (Some p) cs (dst @ [t])
                    else if c = CHR '';'' then loop E r2 subject None cs (dst @ [t])
                    else
                      Some (Returns (dst @ [t])
                              (Some (syntaxErr r2 ''illegal triple continuation'')), r2)) = Some z"
        by simp
      have ih: "appended dst (fst z)"
        if "loop E r2 subject pr cs (dst @ [t]) = Some z" for r2 pr cs
        using t that by (cases z) (auto dest!: 1(1) intro: appended_step)
      from step show ?thesis
        using t ih
        by (auto split: prod.splits res.splits list.splits if_splits
            intro: appended_last)
    next
      case (Err e)
      with 1(2) Some ro y d show ?thesis by auto
    next
      case (Panic m)
      with 1(2) Some ro y d show ?thesis by auto
    qed
  qed
qed


lemma ReadAppend_appended:
  assumes "ReadAppend E r dst = Some z"
  shows "appended dst (fst z)"
proof (cases "readSubject E r dst")
  case None
  with assms show ?thesis by (simp add: ReadAppend_def)
next
  case (Some y)
  obtain x r1 dst1 where y: "y = (x, r1, dst1)" by (cases y)
  from readSubject_dst[of dst E r] Some y have d: "dst1 = dst" by (simp add: optDst_def)
  show ?thesis
  proof (cases x)
    case (Ok v)
    obtain subject line where v: "v = (subject, line)" by (cases v)
    from assms Some y Ok v d have "ReadAppend_loop E r1 subject None line dst = Some z"
      by (simp add: ReadAppend_def)
    then show ?thesis by (rule ReadAppend_loop_appended)
  next
    case (Err e)
    with assms Some y d show ?thesis by (auto simp: ReadAppend_def)
  next
    case (Panic m)
    with assms Some y d show ?thesis by (auto simp: ReadAppend_def)
  qed
qed

section \<open>The claims\<close>

text \<open>
  C1.  Every call of \<^verbatim>\<open>ReadAppend\<close> is claimed to end in one of four returns and never
  to panic or run forever, also on an IRI reference with a backslash, on a collection
  and on a number of two digits.  In the code the number \<^verbatim>\<open>12\<close> keeps the first loop
  of \<^verbatim>\<open>inNumberWithSign\<close> turning with no return, and the backslash and the
  parenthesis reach a \<^verbatim>\<open>panic("TODO: ...")\<close>.
\<close>

theorem ReadAppend_diverges_or_panics:
  "ReadAppend E (newReader (NewReader ''_:s a 12 .\<newline>'')) [] = None
   \<and> map_option fst (ReadAppend E (newReader (NewReader (''<a'' @ [BSL] @ ''b> a 1 .\<newline>''))) [])
       = Some (Panics ''TODO: Unicode escape'')
   \<and> map_option fst (ReadAppend E (newReader (NewReader ''( 1 ) a 1 .\<newline>'')) [])
       = Some (Panics ''TODO: collection list not implemented yet'')"
  by (simp add: ev)

text \<open>
  C2.  \<^verbatim>\<open>IsSkolemIRI(s)\<close> is claimed to hold exactly when \<open>s\<close> begins with the
  reserved namespace \<^verbatim>\<open>web+skolem://quies.net/\<close>, and so for every IRI a Reader mints.
  The code asks whether the namespace begins with \<open>s\<close>: of the strings that begin
  with the namespace it accepts the namespace alone, so it rejects every minted IRI,
  which is the namespace followed by the session, a slash and the node; and it accepts
  the empty string and \<^verbatim>\<open>web\<close>.
\<close>

theorem IsSkolemIRI_of_namespace_extension:
  "IsSkolemIRI (skolemIRIRoot @ x) = (x = []) \<and> IsSkolemIRI [] \<and> IsSkolemIRI ''web''"
  by (auto simp: IsSkolemIRI_def HasPrefix_def skolemIRIRoot_def)

text \<open>
  C3.  A statement with the keyword \<^verbatim>\<open>false\<close> as its object is claimed to give a
  triple of datatype xsd:boolean with the lexical form \<^verbatim>\<open>false\<close>, which
  \<^verbatim>\<open>XSDBoolean\<close> reads as false.  The code stores the lexical form \<^verbatim>\<open>true\<close>, and the
  accessor reads the triple as true; the keyword \<^verbatim>\<open>true\<close> gives the same triple.
\<close>

theorem keyword_false_is_stored_as_true:
  "map_option fst (ReadAppend E (newReader (NewReader ''_:s a false .\<newline>'')) []) =
     Some (Returns
       [\<lparr>SubjectIRI = skolemIRIRoot @ session E @ ''/blank#s'', PredicateIRI = rdfType,
         Object = ''true'', DatatypeIRI = XSDBoolean, LangTag = []\<rparr>] None)
   \<and> Triple_XSDBoolean
        \<lparr>SubjectIRI = skolemIRIRoot @ session E @ ''/blank#s'', PredicateIRI = rdfType,
         Object = ''true'', DatatypeIRI = XSDBoolean, LangTag = []\<rparr> = (True, None)
   \<and> map_option fst (ReadAppend E (newReader (NewReader ''_:s a true .\<newline>'')) []) =
     Some (Returns
       [\<lparr>SubjectIRI = skolemIRIRoot @ session E @ ''/blank#s'', PredicateIRI = rdfType,
         Object = ''true'', DatatypeIRI = XSDBoolean, LangTag = []\<rparr>] None)"
  by (simp add: ev Triple_XSDBoolean_def)

text \<open>
  C4.  \<^verbatim>\<open>t.XSDString()\<close> is claimed to return the lexical form in \<^verbatim>\<open>t.Object\<close> when
  the datatype is xsd:string.  The code returns the empty string on both paths; the
  error is the one claimed.
\<close>

theorem XSDString_returns_the_empty_string:
  "Triple_XSDString t =
     ([], if DatatypeIRI t = XSDString then None else Some errXSDString)"
  by (simp add: Triple_XSDString_def)

text \<open>
  C5.  The language tag of a quoted literal is claimed to be stored in lower case, with
  the datatype rdf:langString.  The code stores the tag as it is written: \<^verbatim>\<open>@EN\<close>
  gives the tag \<^verbatim>\<open>EN\<close>.  The datatype is the one claimed.
\<close>

theorem language_tag_keeps_its_case:
 \<open>map_option fst (ReadAppend E (newReader (NewReader ''_:s a "hi"@EN .\<newline>'')) []) =
     Some (Returns
       [\<lparr>SubjectIRI = skolemIRIRoot @ session E @ ''/blank#s'', PredicateIRI = rdfType,
         Object = ''hi'', DatatypeIRI = rdfLangString, LangTag = ''EN''\<rparr>] None)\<close>
  by (simp add: ev)

text \<open>
  C6.  A stream of directives alone is claimed to end in the clean end of stream.  In
  the code \<^verbatim>\<open>readSubject\<close> asks for the line after a directive with
  \<^verbatim>\<open>lineContinue\<close>, which turns \<^verbatim>\<open>io.EOF\<close> into \<^verbatim>\<open>io.ErrUnexpectedEOF\<close>; so for
  each of the four spellings, for every library that reads \<^verbatim>\<open>http://e/\<close> as an IRI
  with the scheme \<^verbatim>\<open>http\<close>.
\<close>

theorem directive_then_end_is_unexpected_EOF:
  assumes "url_Parse E ''http://e/'' = Inr u" and "url_Scheme E u = ''http''"
  shows "map_option fst (ReadAppend E (newReader (NewReader ''@prefix p: <http://e/> .\<newline>'')) [])
           = Some (Returns [] (Some (ErrUnexpectedEOF [])))
       \<and> map_option fst (ReadAppend E (newReader (NewReader ''PREFIX p: <http://e/>\<newline>'')) [])
           = Some (Returns [] (Some (ErrUnexpectedEOF [])))
       \<and> map_option fst (ReadAppend E (newReader (NewReader ''@base <http://e/> .\<newline>'')) [])
           = Some (Returns [] (Some (ErrUnexpectedEOF [])))
       \<and> map_option fst (ReadAppend E (newReader (NewReader ''BASE <http://e/>\<newline>'')) [])
           = Some (Returns [] (Some (ErrUnexpectedEOF [])))"
  using assms by (simp add: ev)

theorem directive_then_end_is_unexpected_EOF_witness:
  "url_Parse sampleEnv ''http://e/'' = Inr ''http://e/''
   \<and> url_Scheme sampleEnv ''http://e/'' = ''http''
   \<and> map_option fst
        (ReadAppend sampleEnv (newReader (NewReader ''@prefix p: <http://e/> .\<newline>'')) [])
       = Some (Returns [] (Some (ErrUnexpectedEOF [])))"
proof -
  have p: "url_Parse sampleEnv ''http://e/'' = Inr ''http://e/''"
    by (simp add: sampleEnv_def)
  have s: "url_Scheme sampleEnv ''http://e/'' = ''http''"
    by (simp add: sampleEnv_def)
  from directive_then_end_is_unexpected_EOF[OF p s] p s show ?thesis by simp
qed

text \<open>
  C7.  A backslash before a byte that is no escape letter is claimed to be a syntax
  error.  The code returns normally on \<^verbatim>\<open>"\x"\<close> and keeps both bytes as the object:
  \<^verbatim>\<open>inEscape\<close> is entered at the backslash itself and writes it, and its switch has
  no case that rejects a byte.
\<close>

theorem unknown_escape_is_accepted:
 \<open>map_option fst
     (ReadAppend E (newReader (NewReader (''_:s a "'' @ [BSL] @ ''x" .\<newline>''))) []) =
     Some (Returns
       [\<lparr>SubjectIRI = skolemIRIRoot @ session E @ ''/blank#s'', PredicateIRI = rdfType,
         Object = [BSL, CHR ''x''], DatatypeIRI = XSDString, LangTag = []\<rparr>] None)\<close>
  by (simp add: ev)

text \<open>
  C8.  Every triple that a call of \<^verbatim>\<open>ReadAppend\<close> appends and that has a language tag
  has the datatype rdf:langString.  The triples a call appends are those of the
  returned slice behind the ones it was given.
\<close>

theorem appended_language_tag_has_langString:
  assumes "ReadAppend E r dst = Some (Returns dst' err, r')"
    and "t \<in> set (drop (length dst) dst')"
    and "LangTag t \<noteq> []"
  shows "DatatypeIRI t = rdfLangString"
proof -
  from ReadAppend_appended[OF assms(1)] obtain new
    where "dst' = dst @ new" and "list_all okTag new"
    by (auto simp: appended_def)
  with assms(2) have "okTag t" by (auto simp: list_all_iff)
  with assms(3) show ?thesis by (simp add: okTag_def)
qed

theorem appended_language_tag_has_langString_witness:
 \<open>\<exists>r'. ReadAppend sampleEnv (newReader (NewReader ''_:s a "hi"@en .\<newline>'')) [] =
         Some (Returns
           [\<lparr>SubjectIRI = ''web+skolem://quies.net/17f3a9c2e4b0d5a6/blank#s'',
             PredicateIRI = rdfType, Object = ''hi'', DatatypeIRI = rdfLangString,
             LangTag = ''en''\<rparr>] None, r')
       \<and> LangTag \<lparr>SubjectIRI = ''web+skolem://quies.net/17f3a9c2e4b0d5a6/blank#s'',
             PredicateIRI = rdfType, Object = ''hi'', DatatypeIRI = rdfLangString,
             LangTag = ''en''\<rparr> \<noteq> []
       \<and> DatatypeIRI \<lparr>SubjectIRI = ''web+skolem://quies.net/17f3a9c2e4b0d5a6/blank#s'',
             PredicateIRI = rdfType, Object = ''hi'', DatatypeIRI = rdfLangString,
             LangTag = ''en''\<rparr> = rdfLangString\<close>
proof -
  let ?t = \<open>\<lparr>SubjectIRI = ''web+skolem://quies.net/17f3a9c2e4b0d5a6/blank#s'',
             PredicateIRI = rdfType, Object = ''hi'', DatatypeIRI = rdfLangString,
             LangTag = ''en''\<rparr>\<close>
  obtain r' where run:
    \<open>ReadAppend sampleEnv (newReader (NewReader ''_:s a "hi"@en .\<newline>'')) [] =
       Some (Returns [?t] None, r')\<close>
    by (simp add: ev sampleEnv_def)
  have "DatatypeIRI ?t = rdfLangString"
    using appended_language_tag_has_langString[OF run, of ?t] by simp
  with run show ?thesis by auto
qed

text \<open>
  C9.  Reading the line \<^verbatim>\<open>t.String()\<close> and a new-line is claimed to give the triple
  \<open>t\<close> back, for every \<open>t\<close> whose object is no blank node.  For the literal \<^verbatim>\<open>a"b\<close>
  of datatype xsd:string the line holds \<^verbatim>\<open>"a\"b"\<close>; the code ends the literal at the
  escaped quote, appends a triple with the object \<^verbatim>\<open>a\\<close> and returns a syntax
  error, for every library that reads the two IRIs with the scheme \<^verbatim>\<open>http\<close>.
\<close>

theorem rendered_quote_is_not_read_back:
  assumes "url_Parse E ''http://e/s'' = Inr us" and "url_Scheme E us = ''http''"
    and "url_Parse E ''http://e/p'' = Inr up" and "url_Scheme E up = ''http''"
  shows
   \<open>map_option fst
      (ReadAppend E
         (newReader (NewReader
            (Triple_String qx
               \<lparr>SubjectIRI = ''http://e/s'', PredicateIRI = ''http://e/p'', Object = ''a"b'',
                DatatypeIRI = XSDString, LangTag = []\<rparr> @ [LF]))) []) =
      Some (Returns
        [\<lparr>SubjectIRI = ''http://e/s'', PredicateIRI = ''http://e/p'', Object = [CHR ''a'', BSL],
          DatatypeIRI = XSDString, LangTag = []\<rparr>]
        (Some (SyntaxError 1 ''illegal triple continuation'')))\<close>
  using assms by (simp add: ev)

theorem rendered_quote_is_not_read_back_witness:
 \<open>url_Scheme sampleEnv ''http://e/s'' = ''http'' \<and> url_Scheme sampleEnv ''http://e/p'' = ''http''
   \<and> map_option fst
      (ReadAppend sampleEnv
         (newReader (NewReader
            (Triple_String id
               \<lparr>SubjectIRI = ''http://e/s'', PredicateIRI = ''http://e/p'', Object = ''a"b'',
                DatatypeIRI = XSDString, LangTag = []\<rparr> @ [LF]))) []) =
      Some (Returns
        [\<lparr>SubjectIRI = ''http://e/s'', PredicateIRI = ''http://e/p'', Object = [CHR ''a'', BSL],
          DatatypeIRI = XSDString, LangTag = []\<rparr>]
        (Some (SyntaxError 1 ''illegal triple continuation'')))\<close>
proof -
  have ps: "url_Parse sampleEnv ''http://e/s'' = Inr ''http://e/s''"
    and pp: "url_Parse sampleEnv ''http://e/p'' = Inr ''http://e/p''"
    by (simp_all add: sampleEnv_def)
  have ss: "url_Scheme sampleEnv ''http://e/s'' = ''http''"
    and sp: "url_Scheme sampleEnv ''http://e/p'' = ''http''"
    by (simp_all add: sampleEnv_def)
  from rendered_quote_is_not_read_back[OF ps ss pp sp, of id] ss sp show ?thesis by simp
qed

text \<open>
  C10.  The slice a call of \<^verbatim>\<open>ReadAppend\<close> returns begins with the slice it was given,
  element for element, whether the error it returns with is nil or not.
\<close>

theorem ReadAppend_keeps_dst:
  assumes "ReadAppend E r dst = Some (Returns dst' err, r')"
  shows "length dst \<le> length dst' \<and> take (length dst) dst' = dst"
proof -
  from ReadAppend_appended[OF assms] obtain new where "dst' = dst @ new"
    by (auto simp: appended_def)
  then show ?thesis by simp
qed

theorem ReadAppend_keeps_dst_witness:
 \<open>\<exists>r'. ReadAppend sampleEnv (newReader (NewReader ''_:s a 7 x\<newline>''))
          [\<lparr>SubjectIRI = ''http://e/s'', PredicateIRI = ''http://e/p'', Object = ''old'',
            DatatypeIRI = XSDString, LangTag = []\<rparr>] =
         Some (Returns
           [\<lparr>SubjectIRI = ''http://e/s'', PredicateIRI = ''http://e/p'', Object = ''old'',
             DatatypeIRI = XSDString, LangTag = []\<rparr>,
            \<lparr>SubjectIRI = ''web+skolem://quies.net/17f3a9c2e4b0d5a6/blank#s'',
             PredicateIRI = rdfType, Object = ''7'', DatatypeIRI = XSDInteger, LangTag = []\<rparr>]
           (Some (SyntaxError 1 ''illegal triple continuation'')), r')
       \<and> take (length [\<lparr>SubjectIRI = ''http://e/s'', PredicateIRI = ''http://e/p'',
                         Object = ''old'', DatatypeIRI = XSDString, LangTag = []\<rparr>])
            [\<lparr>SubjectIRI = ''http://e/s'', PredicateIRI = ''http://e/p'', Object = ''old'',
              DatatypeIRI = XSDString, LangTag = []\<rparr>,
             \<lparr>SubjectIRI = ''web+skolem://quies.net/17f3a9c2e4b0d5a6/blank#s'',
              PredicateIRI = rdfType, Object = ''7'', DatatypeIRI = XSDInteger, LangTag = []\<rparr>]
          = [\<lparr>SubjectIRI = ''http://e/s'', PredicateIRI = ''http://e/p'', Object = ''old'',
              DatatypeIRI = XSDString, LangTag = []\<rparr>]\<close>
proof -
  let ?old = \<open>\<lparr>SubjectIRI = ''http://e/s'', PredicateIRI = ''http://e/p'', Object = ''old'',
               DatatypeIRI = XSDString, LangTag = []\<rparr>\<close>
  let ?new = \<open>\<lparr>SubjectIRI = ''web+skolem://quies.net/17f3a9c2e4b0d5a6/blank#s'',
               PredicateIRI = rdfType, Object = ''7'', DatatypeIRI = XSDInteger, LangTag = []\<rparr>\<close>
  obtain r' where run:
    \<open>ReadAppend sampleEnv (newReader (NewReader ''_:s a 7 x\<newline>'')) [?old] =
       Some (Returns [?old, ?new] (Some (SyntaxError 1 ''illegal triple continuation'')), r')\<close>
    by (simp add: ev sampleEnv_def)
  from ReadAppend_keeps_dst[OF run] run show ?thesis by auto
qed

end
